theory Spec2Isabelle
  imports Complex_Main "HOL-Library.Word"
begin

section \<open>Data model of the quantization pipeline\<close>

text \<open>
  The development embeds \<^verbatim>\<open>quantization_pipeline.py\<close> (class \<^verbatim>\<open>ModelQuantizer\<close>) and
  the caller \<^verbatim>\<open>TrainingPipeline.quantize_model\<close> of \<^verbatim>\<open>train_and_evaluate.py\<close>.

  Python floats are modelled by \<^typ>\<open>real\<close>: comparisons are the linear order of the
  reals (no NaN), and a true division is the exact quotient, raising
  \<^verbatim>\<open>ZeroDivisionError\<close> on a zero divisor as Python's \<^verbatim>\<open>float\<close> does. Rounding
  is outside the model. A division whose divisor is a NumPy scalar does not raise on
  zero: it gives \<^verbatim>\<open>inf\<close>, \<^verbatim>\<open>-inf\<close> or \<^verbatim>\<open>nan\<close>, so its result is a value of the
  type \<open>np_float\<close> below.

  A Python \<^verbatim>\<open>dict\<close> keeps its keys in insertion order, and the selection depends on
  that order, so a dict is an association list whose keys are pairwise distinct.
\<close>

datatype py_error =
    ValueError
  | ZeroDivisionError
  | KeyError
  | IndexError
  | OSError
  | ConverterError
  | InterpreterError

type_synonym bytes = "8 word list"

type_synonym 'v dict = "(string \<times> 'v) list"

definition dict_getitem :: "'v dict \<Rightarrow> string \<Rightarrow> py_error + 'v" where
  \<comment> \<open>\<^verbatim>\<open>d[k]\<close>\<close>
  "dict_getitem d k = (case map_of d k of None \<Rightarrow> Inl KeyError | Some v \<Rightarrow> Inr v)"

fun dict_setitem :: "'v dict \<Rightarrow> string \<Rightarrow> 'v \<Rightarrow> 'v dict" where
  \<comment> \<open>\<^verbatim>\<open>d[k] = v\<close>: an existing key keeps its place, a new key goes last\<close>
  "dict_setitem [] k v = [(k, v)]"
| "dict_setitem ((k', v') # d) k v =
     (if k' = k then (k, v) # d else (k', v') # dict_setitem d k v)"

datatype np_float = Finite real | PosInf | NegInf | NaN

definition py_truediv :: "real \<Rightarrow> real \<Rightarrow> py_error + real" where
  \<comment> \<open>\<^verbatim>\<open>a / b\<close> on Python floats\<close>
  "py_truediv a b = (if b = 0 then Inl ZeroDivisionError else Inr (a / b))"

definition np_truediv :: "real \<Rightarrow> real \<Rightarrow> np_float" where
  \<comment> \<open>\<^verbatim>\<open>a / b\<close> for a Python float \<open>a\<close> and a NumPy scalar \<open>b\<close>\<close>
  "np_truediv a b =
     (if b = 0 then (if 0 < a then PosInf else if a < 0 then NegInf else NaN)
      else Finite (a / b))"

record QuantizationMetrics =
  original_size_mb :: real
  quantized_size_mb :: real
  size_reduction_ratio :: real
  original_accuracy :: real
  quantized_accuracy :: real
  accuracy_retention :: real
  original_inference_ms :: real
  quantized_inference_ms :: real
  speedup_ratio :: np_float
  quantization_method :: string

text \<open>
  The report that \<^verbatim>\<open>create_quantization_report\<close> dumps as JSON. The keys of the Python
  dicts \<^verbatim>\<open>summary\<close> and \<^verbatim>\<open>detailed_results[method]\<close> are the fields of two records
  (the second with the prefix \<open>d_\<close>); a \<^verbatim>\<open>None\<close> is \<^const>\<open>None\<close>.
\<close>

record report_summary =
  original_model_size_mb :: "real option"
  summary_original_accuracy :: "real option"
  quantization_methods_tested :: "string list"
  best_method_by_size :: "string option"
  best_method_by_accuracy :: "string option"
  recommendation :: "string option"

record detailed_result =
  d_quantized_size_mb :: real
  d_size_reduction_ratio :: real
  d_quantized_accuracy :: real
  d_accuracy_retention :: real
  d_inference_time_ms :: real
  d_speedup_ratio :: np_float

record quantization_report =
  summary :: report_summary
  detailed_results :: "detailed_result dict"
  performance_comparison :: "unit dict"

section \<open>Python's \<^verbatim>\<open>min\<close> and \<^verbatim>\<open>max\<close> with a key\<close>

text \<open>
  CPython's \<^verbatim>\<open>min(iterable, key=f)\<close> raises \<^verbatim>\<open>ValueError\<close> on an empty iterable;
  otherwise it walks the items once, computing each key, and replaces the current best
  only when the new key is strictly smaller. \<^verbatim>\<open>max\<close> is the mirror image. An
  exception of the key function propagates.
\<close>

fun min_loop :: "('a \<Rightarrow> py_error + real) \<Rightarrow> 'a \<Rightarrow> real \<Rightarrow> 'a list \<Rightarrow> py_error + 'a" where
  "min_loop key best kb [] = Inr best"
| "min_loop key best kb (x # xs) =
     (case key x of
        Inl e \<Rightarrow> Inl e
      | Inr kx \<Rightarrow> if kx < kb then min_loop key x kx xs else min_loop key best kb xs)"

definition py_min :: "('a \<Rightarrow> py_error + real) \<Rightarrow> 'a list \<Rightarrow> py_error + 'a" where
  "py_min key xs =
     (case xs of
        [] \<Rightarrow> Inl ValueError
      | x # rest \<Rightarrow> (case key x of Inl e \<Rightarrow> Inl e | Inr kx \<Rightarrow> min_loop key x kx rest))"

fun max_loop :: "('a \<Rightarrow> py_error + real) \<Rightarrow> 'a \<Rightarrow> real \<Rightarrow> 'a list \<Rightarrow> py_error + 'a" where
  "max_loop key best kb [] = Inr best"
| "max_loop key best kb (x # xs) =
     (case key x of
        Inl e \<Rightarrow> Inl e
      | Inr kx \<Rightarrow> if kx > kb then max_loop key x kx xs else max_loop key best kb xs)"

definition py_max :: "('a \<Rightarrow> py_error + real) \<Rightarrow> 'a list \<Rightarrow> py_error + 'a" where
  "py_max key xs =
     (case xs of
        [] \<Rightarrow> Inl ValueError
      | x # rest \<Rightarrow> (case key x of Inl e \<Rightarrow> Inl e | Inr kx \<Rightarrow> max_loop key x kx rest))"

section \<open>Strategy selection\<close>

text \<open>
  \<^verbatim>\<open>ModelQuantizer.select_best_quantization\<close>. The loop over
  \<^verbatim>\<open>evaluation_results.items()\<close> that appends to \<^verbatim>\<open>valid_methods\<close> is a filter. The
  fallback takes the minimum over the keys, looking each key up in the dict; the regular
  branch takes the minimum over the (method, metrics) pairs and returns the method.
\<close>

definition select_best_quantization ::
  "QuantizationMetrics dict \<Rightarrow> real \<Rightarrow> real \<Rightarrow> py_error + string" where
  "select_best_quantization evaluation_results size_threshold_mb accuracy_threshold =
     (let valid_methods =
            filter (\<lambda>(method, metrics).
                      quantized_size_mb metrics \<le> size_threshold_mb \<and>
                      accuracy_retention metrics \<ge> accuracy_threshold)
                   evaluation_results
      in if valid_methods = [] then
           py_min (\<lambda>m. map_sum id quantized_size_mb (dict_getitem evaluation_results m))
                  (map fst evaluation_results)
         else
           map_sum id fst (py_min (\<lambda>x. Inr (quantized_size_mb (snd x))) valid_methods))"

section \<open>The external collaborators\<close>

text \<open>
  TensorFlow, the file system, \<^verbatim>\<open>pathlib\<close>, \<^verbatim>\<open>json\<close>, \<^verbatim>\<open>matplotlib\<close>, the clock and the
  trained classifier are outside the repository. They enter the model as the fields of
  an environment: each field is the outcome of one kind of call, an error or a value.
  The type \<open>'p\<close> is one preprocessed row (the \<^verbatim>\<open>input_ids\<close> and \<^verbatim>\<open>attention_mask\<close> of
  one text); a tensor is a list of rows.
\<close>

datatype tf_dtype = TfInt8 | TfFloat16

record 'p converter_config =
  optimizations_default :: bool
  representative_dataset :: "(py_error + 'p list list) option"
  supported_types :: "tf_dtype list"
  inference_input_type :: "tf_dtype option"
  inference_output_type :: "tf_dtype option"

record interpreter_details =
  input_shape0 :: "int list"
  output_shape0 :: "int list"
  num_tensors :: nat

record 'p env =
  model_trained :: bool
  preprocess_data :: "string list \<Rightarrow> py_error + 'p list"
  tflite_convert :: "'p converter_config \<Rightarrow> py_error + bytes \<times> real"
  join_path :: "string \<Rightarrow> string \<Rightarrow> string"
  mkdir :: "string \<Rightarrow> py_error option"
  write_file :: "string \<Rightarrow> bytes \<Rightarrow> py_error option"
  read_file :: "string \<Rightarrow> py_error + bytes"
  interpreter_details_of :: "bytes \<Rightarrow> py_error + interpreter_details"
  interpreter_invoke :: "bytes \<Rightarrow> 'p list \<Rightarrow> py_error + real list list"
  clock :: "string \<Rightarrow> nat \<Rightarrow> real"
  calculate_model_size :: "nat \<Rightarrow> py_error + real"
  evaluate_model :: "nat \<Rightarrow> string list \<Rightarrow> int list \<Rightarrow> py_error + real \<times> real"
  write_report :: "string \<Rightarrow> quantization_report \<Rightarrow> py_error option"
  plot_figure :: "QuantizationMetrics dict \<Rightarrow> string \<Rightarrow> py_error option"

text \<open>
  \<^item> \<^const>\<open>model_trained\<close>: \<^verbatim>\<open>classifier.model is not None\<close>.
  \<^item> \<^const>\<open>tflite_convert\<close>: \<^verbatim>\<open>converter.convert()\<close> for a converter configured as
    given, with the seconds that \<^verbatim>\<open>time.time()\<close> measures around the call.
  \<^item> \<^const>\<open>join_path\<close>: \<^verbatim>\<open>str(Path(output_dir) / name)\<close>, which depends on the
    platform and normalises the directory.
  \<^item> \<^const>\<open>mkdir\<close>, \<^const>\<open>write_file\<close>: \<open>None\<close> is success.
  \<^item> \<^const>\<open>interpreter_details_of\<close>: \<^verbatim>\<open>tf.lite.Interpreter(model_content=...)\<close>,
    \<^verbatim>\<open>allocate_tensors()\<close> and the reads of the input and output details.
  \<^item> \<^const>\<open>interpreter_invoke\<close>: the two \<^verbatim>\<open>set_tensor\<close> calls, \<^verbatim>\<open>invoke()\<close> and
    \<^verbatim>\<open>get_tensor\<close>; the value is the output tensor.
  \<^item> \<^const>\<open>clock\<close>: \<open>clock env path k\<close> is reading number \<open>k\<close> of \<^verbatim>\<open>time.time()\<close>
    while the model at \<open>path\<close> is benchmarked.
  \<^item> \<^const>\<open>calculate_model_size\<close>: \<^verbatim>\<open>classifier._calculate_model_size()\<close>, which
    saves the model to a temporary file and reads the file's size.
  \<^item> \<^const>\<open>evaluate_model\<close>: \<^verbatim>\<open>classifier.evaluate_model\<close>, of which the pipeline
    reads \<^verbatim>\<open>accuracy\<close> and \<^verbatim>\<open>avg_inference_time_ms\<close>. (It also measures the model's
    size once more, for the entry \<^verbatim>\<open>model_size_mb\<close> of its own result, which the
    pipeline does not read.)
  \<^item> \<^const>\<open>write_report\<close>: \<^verbatim>\<open>open(output_path, 'w')\<close> and \<^verbatim>\<open>json.dump\<close>; \<open>None\<close>
    is success.
  \<^item> \<^const>\<open>plot_figure\<close>: everything \<^verbatim>\<open>plot_quantization_comparison\<close> does with
    \<^verbatim>\<open>matplotlib\<close>; \<open>None\<close> is success.

  Two measurements of the original model need not agree: the size is read off a file
  written for the purpose and the latency is a wall-clock time. The first argument of
  \<^const>\<open>calculate_model_size\<close> and \<^const>\<open>evaluate_model\<close> is therefore the moment of
  the call, counted as the number of candidates that \<^verbatim>\<open>evaluate_quantized_models\<close>
  has evaluated so far.
\<close>

section \<open>Calibration data\<close>

text \<open>
  \<^verbatim>\<open>TrainingPipeline.quantize_model\<close> takes the calibration texts with the slice
  \<^verbatim>\<open>data['train_texts'][:500]\<close>. A Python slice never raises: past the end it stops
  at the end.
\<close>

definition calibration_slice :: "string list \<Rightarrow> string list" where
  "calibration_slice train_texts = take 500 train_texts"

text \<open>
  \<^verbatim>\<open>create_representative_dataset\<close> preprocesses the texts at once and returns the
  generator \<^verbatim>\<open>representative_data_gen\<close>, which the converter iterates later. The
  generator walks \<^verbatim>\<open>range(0, len(texts), batch_size)\<close>: a zero step raises
  \<^verbatim>\<open>ValueError\<close>, a negative step gives no index.
\<close>

definition representative_data_gen :: "'p list \<Rightarrow> nat \<Rightarrow> int \<Rightarrow> py_error + 'p list list" where
  "representative_data_gen processed_data n batch_size =
     (if batch_size = 0 then Inl ValueError
      else if batch_size < 0 then Inr []
      else
        let bs = nat batch_size
        in Inr (map (\<lambda>k. let i = k * bs; end_idx = min (i + bs) n
                           in take (end_idx - i) (drop i processed_data))
                    [0..<(n + bs - 1) div bs]))"

definition create_representative_dataset ::
  "'p env \<Rightarrow> string list \<Rightarrow> int \<Rightarrow> py_error + (py_error + 'p list list)" where
  "create_representative_dataset env texts batch_size =
     (case preprocess_data env texts of
        Inl e \<Rightarrow> Inl e
      | Inr processed_data \<Rightarrow>
          Inr (representative_data_gen processed_data (length texts) batch_size))"

section \<open>Conversion\<close>

text \<open>
  Constructing the converter (\<^verbatim>\<open>TFLiteConverter.from_keras_model\<close>) and setting its
  attributes are taken to succeed; what can fail is \<^verbatim>\<open>convert()\<close>, writing the file and
  opening the result in an interpreter. Of the \<^verbatim>\<open>metadata\<close> dict the model keeps the
  conversion time and the number of tensors; its two lists of tensor details are the
  interpreter's own and are left out.
\<close>

record model_metadata =
  conversion_time_seconds :: real
  metadata_num_tensors :: nat

record TFLiteModelInfo =
  model_path :: string
  size_mb :: real
  input_shape :: "int list"
  output_shape :: "int list"
  quantization_type :: string
  inference_time_ms :: real
  accuracy :: real
  metadata :: model_metadata

definition get_tflite_model_info ::
  "'p env \<Rightarrow> string \<Rightarrow> bytes \<Rightarrow> string \<Rightarrow> real \<Rightarrow> py_error + TFLiteModelInfo" where
  "get_tflite_model_info env path model_content qtype conversion_time =
     (let size = real (length model_content) / (1024 * 1024)
      in case interpreter_details_of env model_content of
           Inl e \<Rightarrow> Inl e
         | Inr d \<Rightarrow>
             Inr \<lparr>model_path = path, size_mb = size,
                  input_shape = input_shape0 d, output_shape = output_shape0 d,
                  quantization_type = qtype, inference_time_ms = 0, accuracy = 0,
                  metadata = \<lparr>conversion_time_seconds = conversion_time,
                              metadata_num_tensors = num_tensors d\<rparr>\<rparr>)"

definition save_and_describe ::
  "'p env \<Rightarrow> string \<Rightarrow> string \<Rightarrow> bytes \<times> real \<Rightarrow> py_error + TFLiteModelInfo" where
  \<comment> \<open>the tail shared by the three \<^verbatim>\<open>quantize_*\<close> methods: write the file, read its details\<close>
  "save_and_describe env output_path qtype converted =
     (case converted of (quantized_model, conversion_time) \<Rightarrow>
        (case write_file env output_path quantized_model of
           Some e \<Rightarrow> Inl e
         | None \<Rightarrow>
             get_tflite_model_info env output_path quantized_model qtype conversion_time))"

definition dynamic_config :: "'p converter_config" where
  "dynamic_config =
     \<lparr>optimizations_default = True, representative_dataset = None, supported_types = [],
      inference_input_type = None, inference_output_type = None\<rparr>"

definition float16_config :: "'p converter_config" where
  "float16_config =
     \<lparr>optimizations_default = True, representative_dataset = None,
      supported_types = [TfFloat16],
      inference_input_type = None, inference_output_type = None\<rparr>"

definition int8_config :: "(py_error + 'p list list) \<Rightarrow> bool \<Rightarrow> 'p converter_config" where
  "int8_config dataset use_fallback =
     (if use_fallback then
        \<lparr>optimizations_default = True, representative_dataset = Some dataset,
         supported_types = [TfInt8],
         inference_input_type = None, inference_output_type = None\<rparr>
      else
        \<lparr>optimizations_default = True, representative_dataset = Some dataset,
         supported_types = [TfInt8],
         inference_input_type = Some TfInt8, inference_output_type = Some TfInt8\<rparr>)"

definition quantize_dynamic :: "'p env \<Rightarrow> string \<Rightarrow> py_error + TFLiteModelInfo" where
  "quantize_dynamic env output_path =
     (case tflite_convert env dynamic_config of
        Inl e \<Rightarrow> Inl e
      | Inr converted \<Rightarrow> save_and_describe env output_path ''dynamic'' converted)"

definition quantize_float16 :: "'p env \<Rightarrow> string \<Rightarrow> py_error + TFLiteModelInfo" where
  "quantize_float16 env output_path =
     (case tflite_convert env float16_config of
        Inl e \<Rightarrow> Inl e
      | Inr converted \<Rightarrow> save_and_describe env output_path ''float16'' converted)"

text \<open>
  \<^verbatim>\<open>quantize_int8\<close>. The second component of the result is the list of converter
  configurations handed to \<^verbatim>\<open>converter.convert()\<close>, in call order; the Python returns
  the first component only. A failed conversion with \<^verbatim>\<open>use_fallback = False\<close> calls the
  method again with \<^verbatim>\<open>use_fallback = True\<close>; with \<^verbatim>\<open>use_fallback = True\<close> it re-raises.
\<close>

function quantize_int8 ::
  "'p env \<Rightarrow> string \<Rightarrow> string list \<Rightarrow> bool \<Rightarrow>
   (py_error + TFLiteModelInfo) \<times> 'p converter_config list" where
  "quantize_int8 env output_path calibration_texts use_fallback =
     (case create_representative_dataset env calibration_texts 1 of
        Inl e \<Rightarrow> (Inl e, [])
      | Inr dataset \<Rightarrow>
          (let cfg = int8_config dataset use_fallback;
               qtype = (if use_fallback then ''int8_fallback'' else ''int8'')
           in case tflite_convert env cfg of
                Inl e \<Rightarrow>
                  if \<not> use_fallback then
                    (case quantize_int8 env output_path calibration_texts True of
                       (r, attempts) \<Rightarrow> (r, cfg # attempts))
                  else (Inl e, [cfg])
              | Inr converted \<Rightarrow> (save_and_describe env output_path qtype converted, [cfg])))"
  by pat_completeness auto
termination
  by (relation "measure (\<lambda>(env, output_path, calibration_texts, use_fallback).
                           if use_fallback then 0 else 1)") auto

declare quantize_int8.simps [simp del]

text \<open>
  \<^verbatim>\<open>quantize_all_methods\<close>: every strategy runs inside its own \<^verbatim>\<open>try\<close>, whose
  \<^verbatim>\<open>except Exception\<close> only logs. The \<^verbatim>\<open>mkdir\<close> before them is unguarded. The path
  of a model file is \<^verbatim>\<open>str(output_path / name)\<close>, computed inside the \<^verbatim>\<open>try\<close>.
\<close>

definition quantize_all_methods ::
  "'p env \<Rightarrow> string \<Rightarrow> string list \<Rightarrow> py_error + TFLiteModelInfo dict" where
  "quantize_all_methods env output_dir calibration_texts =
     (case mkdir env output_dir of
        Some e \<Rightarrow> Inl e
      | None \<Rightarrow>
          (let results = [];
               results =
                 (case quantize_dynamic env
                         (join_path env output_dir ''mobile_classifier_dynamic.tflite'') of
                    Inl e \<Rightarrow> results
                  | Inr info \<Rightarrow> dict_setitem results ''dynamic'' info);
               results =
                 (case quantize_float16 env
                         (join_path env output_dir ''mobile_classifier_float16.tflite'') of
                    Inl e \<Rightarrow> results
                  | Inr info \<Rightarrow> dict_setitem results ''float16'' info);
               results =
                 (case fst (quantize_int8 env
                              (join_path env output_dir ''mobile_classifier_int8.tflite'')
                              calibration_texts True) of
                    Inl e \<Rightarrow> results
                  | Inr info \<Rightarrow> dict_setitem results ''int8'' info)
           in Inr results))"

section \<open>Benchmarking\<close>

text \<open>
  NumPy's statistics of a list of floats: \<^verbatim>\<open>np.mean\<close>, \<^verbatim>\<open>np.min\<close>, \<^verbatim>\<open>np.max\<close> and
  \<^verbatim>\<open>np.std\<close> (the population standard deviation, \<^verbatim>\<open>ddof = 0\<close>). On an empty list
  \<^verbatim>\<open>np.min\<close> and \<^verbatim>\<open>np.max\<close> raise \<^verbatim>\<open>ValueError\<close>; \<^verbatim>\<open>np.mean\<close> and \<^verbatim>\<open>np.std\<close>
  only warn and give \<^verbatim>\<open>nan\<close>, which the caller below never gets to return.
\<close>

definition np_mean :: "real list \<Rightarrow> real" where
  "np_mean xs = sum_list xs / real (length xs)"

definition np_min :: "real list \<Rightarrow> py_error + real" where
  "np_min xs = (case xs of [] \<Rightarrow> Inl ValueError | x # rest \<Rightarrow> Inr (fold min rest x))"

definition np_max :: "real list \<Rightarrow> py_error + real" where
  "np_max xs = (case xs of [] \<Rightarrow> Inl ValueError | x # rest \<Rightarrow> Inr (fold max rest x))"

definition np_std :: "real list \<Rightarrow> real" where
  "np_std xs = sqrt (np_mean (map (\<lambda>x. (x - np_mean xs)\<^sup>2) xs))"

record benchmark_results =
  avg_inference_time_ms :: real
  min_inference_time_ms :: real
  max_inference_time_ms :: real
  std_inference_time_ms :: real
  total_benchmark_time_s :: real

text \<open>
  The timing loop of \<^verbatim>\<open>benchmark_tflite_model\<close>. \<open>runs\<close> counts the iterations left and
  \<open>k\<close> the clock readings taken so far. Each iteration reads the clock, feeds the same
  tensor to the interpreter, reads the clock again and appends the difference in
  milliseconds. Beside \<open>run_times\<close> (the Python list \<^verbatim>\<open>times\<close>) the model keeps
  \<open>fed\<close>, the tensors handed to the interpreter in call order.
\<close>

fun benchmark_loop ::
  "'p env \<Rightarrow> string \<Rightarrow> bytes \<Rightarrow> 'p list \<Rightarrow> nat \<Rightarrow> nat \<Rightarrow> real list \<Rightarrow> 'p list list \<Rightarrow>
   py_error + real list \<times> 'p list list" where
  "benchmark_loop env path content processed 0 k run_times fed = Inr (run_times, fed)"
| "benchmark_loop env path content processed (Suc runs) k run_times fed =
     (let start_time = clock env path k
      in case interpreter_invoke env content processed of
           Inl e \<Rightarrow> Inl e
         | Inr output \<Rightarrow>
             benchmark_loop env path content processed runs (k + 2)
               (run_times @ [(clock env path (k + 1) - start_time) * 1000])
               (fed @ [processed]))"

definition benchmark_tflite_model ::
  "'p env \<Rightarrow> string \<Rightarrow> string list \<Rightarrow> int \<Rightarrow> py_error + benchmark_results \<times> 'p list list" where
  "benchmark_tflite_model env path test_texts num_runs =
     (case read_file env path of
        Inl e \<Rightarrow> Inl e
      | Inr model_content \<Rightarrow>
     (case interpreter_details_of env model_content of
        Inl e \<Rightarrow> Inl e
      | Inr details \<Rightarrow>
     (let sample_text = (case test_texts of [] \<Rightarrow> ''Test message'' | t # rest \<Rightarrow> t)
      in case preprocess_data env [sample_text] of
        Inl e \<Rightarrow> Inl e
      | Inr processed \<Rightarrow>
     (case benchmark_loop env path model_content processed (nat num_runs) 0 [] [] of
        Inl e \<Rightarrow> Inl e
      | Inr (run_times, fed) \<Rightarrow>
     (case np_min run_times of
        Inl e \<Rightarrow> Inl e
      | Inr min_time \<Rightarrow>
     (case np_max run_times of
        Inl e \<Rightarrow> Inl e
      | Inr max_time \<Rightarrow>
          Inr (\<lparr>avg_inference_time_ms = np_mean run_times,
                min_inference_time_ms = min_time,
                max_inference_time_ms = max_time,
                std_inference_time_ms = np_std run_times,
                total_benchmark_time_s = sum_list run_times / 1000\<rparr>, fed)))))))"

definition default_num_runs :: int where
  \<comment> \<open>the default of the parameter \<^verbatim>\<open>num_runs\<close>\<close>
  "default_num_runs = 100"

section \<open>Accuracy evaluation\<close>

text \<open>\<^verbatim>\<open>np.argmax\<close>: the index of the first largest entry; \<^verbatim>\<open>ValueError\<close> on an empty row.\<close>

fun argmax_loop :: "real list \<Rightarrow> nat \<Rightarrow> nat \<Rightarrow> real \<Rightarrow> nat" where
  "argmax_loop [] i best bv = best"
| "argmax_loop (x # xs) i best bv =
     (if x > bv then argmax_loop xs (Suc i) i x else argmax_loop xs (Suc i) best bv)"

definition np_argmax :: "real list \<Rightarrow> py_error + nat" where
  "np_argmax xs = (case xs of [] \<Rightarrow> Inl ValueError | x # rest \<Rightarrow> Inr (argmax_loop rest 1 0 x))"

definition predict_label :: "'p env \<Rightarrow> bytes \<Rightarrow> string \<Rightarrow> py_error + nat" where
  \<comment> \<open>the body of the loop up to \<^verbatim>\<open>predicted_label\<close>\<close>
  "predict_label env content text =
     (case preprocess_data env [text] of
        Inl e \<Rightarrow> Inl e
      | Inr processed \<Rightarrow>
     (case interpreter_invoke env content processed of
        Inl e \<Rightarrow> Inl e
      | Inr output_data \<Rightarrow>
     (case output_data of
        [] \<Rightarrow> Inl IndexError
      | row # rest \<Rightarrow> np_argmax row)))"

fun count_correct ::
  "'p env \<Rightarrow> bytes \<Rightarrow> (string \<times> int) list \<Rightarrow> nat \<Rightarrow> py_error + nat" where
  "count_correct env content [] correct_predictions = Inr correct_predictions"
| "count_correct env content ((text, true_label) # rest) correct_predictions =
     (case predict_label env content text of
        Inl e \<Rightarrow> Inl e
      | Inr predicted_label \<Rightarrow>
          count_correct env content rest
            (if int predicted_label = true_label then correct_predictions + 1
             else correct_predictions))"

text \<open>
  \<^verbatim>\<open>_evaluate_tflite_accuracy\<close>. The final statement divides two Python integers:
  \<^verbatim>\<open>correct_predictions / len(test_texts)\<close>.
\<close>

definition evaluate_tflite_accuracy ::
  "'p env \<Rightarrow> string \<Rightarrow> string list \<Rightarrow> int list \<Rightarrow> py_error + real" where
  "evaluate_tflite_accuracy env path test_texts test_labels =
     (case read_file env path of
        Inl e \<Rightarrow> Inl e
      | Inr model_content \<Rightarrow>
     (case interpreter_details_of env model_content of
        Inl e \<Rightarrow> Inl e
      | Inr details \<Rightarrow>
     (case count_correct env model_content (zip test_texts test_labels) 0 of
        Inl e \<Rightarrow> Inl e
      | Inr correct_predictions \<Rightarrow>
          py_truediv (real correct_predictions) (real (length test_texts)))))"

section \<open>Metrics aggregation\<close>

text \<open>
  \<^verbatim>\<open>evaluate_quantized_models\<close> asks the classifier for the original size and the
  original accuracy and latency, then walks \<^verbatim>\<open>quantized_models.items()\<close>. Nothing in
  the loop is inside a \<^verbatim>\<open>try\<close>.

  The size reduction and the accuracy retention divide Python floats and raise
  \<^verbatim>\<open>ZeroDivisionError\<close> on a zero divisor. The divisor of the speed-up is the NumPy
  scalar that \<^verbatim>\<open>np.mean\<close> returns: a zero divisor gives \<^verbatim>\<open>inf\<close>, \<^verbatim>\<open>-inf\<close> or
  \<^verbatim>\<open>nan\<close> with a warning, and the loop goes on.
\<close>

fun evaluate_loop ::
  "'p env \<Rightarrow> string list \<Rightarrow> int list \<Rightarrow> real \<Rightarrow> real \<Rightarrow> real \<Rightarrow>
   TFLiteModelInfo dict \<Rightarrow> QuantizationMetrics dict \<Rightarrow> py_error + QuantizationMetrics dict" where
  "evaluate_loop env test_texts test_labels original_size original_acc original_inference_time
     [] evaluation_results = Inr evaluation_results"
| "evaluate_loop env test_texts test_labels original_size original_acc original_inference_time
     ((method, model_info) # rest) evaluation_results =
     (case benchmark_tflite_model env (model_path model_info) (take 10 test_texts)
             default_num_runs of
        Inl e \<Rightarrow> Inl e
      | Inr (bench, fed) \<Rightarrow>
     (case evaluate_tflite_accuracy env (model_path model_info) test_texts test_labels of
        Inl e \<Rightarrow> Inl e
      | Inr quantized_acc \<Rightarrow>
     (case py_truediv original_size (size_mb model_info) of
        Inl e \<Rightarrow> Inl e
      | Inr size_reduction \<Rightarrow>
     (case py_truediv quantized_acc original_acc of
        Inl e \<Rightarrow> Inl e
      | Inr retention \<Rightarrow>
          evaluate_loop env test_texts test_labels original_size original_acc
            original_inference_time rest
            (dict_setitem evaluation_results method
               \<lparr>original_size_mb = original_size,
                quantized_size_mb = size_mb model_info,
                size_reduction_ratio = size_reduction,
                original_accuracy = original_acc,
                quantized_accuracy = quantized_acc,
                accuracy_retention = retention,
                original_inference_ms = original_inference_time,
                quantized_inference_ms = avg_inference_time_ms bench,
                speedup_ratio =
                  np_truediv original_inference_time (avg_inference_time_ms bench),
                quantization_method = method\<rparr>)))))"

text \<open>
  Both measurements of the original model are taken before the loop, at moment 0.
\<close>

definition evaluate_quantized_models ::
  "'p env \<Rightarrow> TFLiteModelInfo dict \<Rightarrow> string list \<Rightarrow> int list \<Rightarrow>
   py_error + QuantizationMetrics dict" where
  "evaluate_quantized_models env quantized_models test_texts test_labels =
     (case calculate_model_size env 0 of
        Inl e \<Rightarrow> Inl e
      | Inr original_size \<Rightarrow>
     (case evaluate_model env 0 test_texts test_labels of
        Inl e \<Rightarrow> Inl e
      | Inr (original_acc, original_inference_time) \<Rightarrow>
          evaluate_loop env test_texts test_labels original_size original_acc
            original_inference_time quantized_models []))"

section \<open>Report\<close>

text \<open>
  \<^verbatim>\<open>create_quantization_report\<close> builds the dict \<^verbatim>\<open>report\<close> from the metrics dict
  alone, then opens the output file and dumps the dict as JSON. \<open>build_report\<close> is the
  first part, the value of \<^verbatim>\<open>report\<close> when the file is opened.
\<close>

definition detail_of :: "QuantizationMetrics \<Rightarrow> detailed_result" where
  "detail_of metrics =
     \<lparr>d_quantized_size_mb = quantized_size_mb metrics,
      d_size_reduction_ratio = size_reduction_ratio metrics,
      d_quantized_accuracy = quantized_accuracy metrics,
      d_accuracy_retention = accuracy_retention metrics,
      d_inference_time_ms = quantized_inference_ms metrics,
      d_speedup_ratio = speedup_ratio metrics\<rparr>"

definition build_report ::
  "QuantizationMetrics dict \<Rightarrow> py_error + quantization_report" where
  "build_report evaluation_results =
     (let report =
            \<lparr>summary =
               \<lparr>original_model_size_mb = None, summary_original_accuracy = None,
                quantization_methods_tested = map fst evaluation_results,
                best_method_by_size = None, best_method_by_accuracy = None,
                recommendation = None\<rparr>,
             detailed_results = [], performance_comparison = []\<rparr>
      in case evaluation_results of
           [] \<Rightarrow> Inr report
         | (first_method, first_result) # others \<Rightarrow>
     (case py_min (\<lambda>k. map_sum id quantized_size_mb (dict_getitem evaluation_results k))
             (map fst evaluation_results) of
        Inl e \<Rightarrow> Inl e
      | Inr best_size \<Rightarrow>
     (case py_max (\<lambda>k. map_sum id accuracy_retention (dict_getitem evaluation_results k))
             (map fst evaluation_results) of
        Inl e \<Rightarrow> Inl e
      | Inr best_accuracy \<Rightarrow>
          Inr (report
                \<lparr>summary := (summary report)
                   \<lparr>original_model_size_mb := Some (original_size_mb first_result),
                    summary_original_accuracy := Some (original_accuracy first_result),
                    best_method_by_size := Some best_size,
                    best_method_by_accuracy := Some best_accuracy\<rparr>,
                 detailed_results :=
                   fold (\<lambda>(method, metrics) d. dict_setitem d method (detail_of metrics))
                        evaluation_results []\<rparr>))))"

definition create_quantization_report ::
  "'p env \<Rightarrow> QuantizationMetrics dict \<Rightarrow> string \<Rightarrow> py_error + quantization_report" where
  "create_quantization_report env evaluation_results output_path =
     (case build_report evaluation_results of
        Inl e \<Rightarrow> Inl e
      | Inr report \<Rightarrow>
          (case write_report env output_path report of
             Some e \<Rightarrow> Inl e
           | None \<Rightarrow> Inr report))"

text \<open>
  \<^verbatim>\<open>plot_quantization_comparison\<close> returns at once on an empty dict and draws
  otherwise.
\<close>

definition plot_quantization_comparison ::
  "'p env \<Rightarrow> QuantizationMetrics dict \<Rightarrow> string \<Rightarrow> py_error option" where
  "plot_quantization_comparison env evaluation_results save_path =
     (if evaluation_results = [] then None
      else plot_figure env evaluation_results save_path)"

section \<open>The pipeline\<close>

text \<open>
  \<^verbatim>\<open>TrainingPipeline.quantize_model\<close>. The constructor of \<^verbatim>\<open>ModelQuantizer\<close> raises
  \<^verbatim>\<open>ValueError\<close> when the classifier has no model. The Python returns the first three
  fields of the result; the fourth is the report it has written on the way.
\<close>

record quantize_model_result =
  res_quantized_models :: "TFLiteModelInfo dict"
  res_evaluation_results :: "QuantizationMetrics dict"
  res_best_method :: string
  res_report :: quantization_report

definition report_path :: string where
  "report_path = ''evaluation/reports/quantization_report.json''"

definition plot_path :: string where
  "plot_path = ''evaluation/plots/quantization_comparison.png''"

definition quantize_model ::
  "'p env \<Rightarrow> string list \<Rightarrow> string list \<Rightarrow> int list \<Rightarrow> real \<Rightarrow>
   py_error + quantize_model_result" where
  "quantize_model env train_texts test_texts test_labels target_size_mb =
     (if \<not> model_trained env then Inl ValueError
      else
     (let calibration_texts = calibration_slice train_texts
      in case quantize_all_methods env ''models/quantized'' calibration_texts of
        Inl e \<Rightarrow> Inl e
      | Inr quantized_models \<Rightarrow>
     (case evaluate_quantized_models env quantized_models
             (take 100 test_texts) (take 100 test_labels) of
        Inl e \<Rightarrow> Inl e
      | Inr evaluation_results \<Rightarrow>
     (case select_best_quantization evaluation_results target_size_mb (9 / 10) of
        Inl e \<Rightarrow> Inl e
      | Inr best_method \<Rightarrow>
     (case create_quantization_report env evaluation_results report_path of
        Inl e \<Rightarrow> Inl e
      | Inr report \<Rightarrow>
     (case plot_quantization_comparison env evaluation_results plot_path of
        Some e \<Rightarrow> Inl e
      | None \<Rightarrow>
          Inr \<lparr>res_quantized_models = quantized_models,
               res_evaluation_results = evaluation_results,
               res_best_method = best_method,
               res_report = report\<rparr>))))))"

section \<open>Example inputs\<close>

text \<open>
  The three candidates of the specification's scenarios A and B: \<^verbatim>\<open>dynamic\<close> with 8 MB
  and retention 0.97, \<^verbatim>\<open>float16\<close> with 15 MB and 0.99, \<^verbatim>\<open>int8\<close> with 3 MB and 0.85.
\<close>

definition candidate :: "string \<Rightarrow> real \<Rightarrow> real \<Rightarrow> QuantizationMetrics" where
  "candidate name mb retention =
     \<lparr>original_size_mb = 30, quantized_size_mb = mb, size_reduction_ratio = 30 / mb,
      original_accuracy = 1, quantized_accuracy = retention, accuracy_retention = retention,
      original_inference_ms = 10, quantized_inference_ms = 5, speedup_ratio = Finite 2,
      quantization_method = name\<rparr>"

definition scenario_candidates :: "QuantizationMetrics dict" where
  "scenario_candidates =
     [(''dynamic'', candidate ''dynamic'' 8 (97 / 100)),
      (''float16'', candidate ''float16'' 15 (99 / 100)),
      (''int8'', candidate ''int8'' 3 (85 / 100))]"

text \<open>The same candidates, measured ten times slower.\<close>

definition slower :: "QuantizationMetrics \<Rightarrow> QuantizationMetrics" where
  "slower metrics =
     metrics\<lparr>quantized_inference_ms := 50, speedup_ratio := Finite (1 / 5)\<rparr>"

definition scenario_candidates_slow :: "QuantizationMetrics dict" where
  "scenario_candidates_slow = map (\<lambda>(m, metrics). (m, slower metrics)) scenario_candidates"

text \<open>
  An environment in which everything succeeds except the strict INT8 conversion. A text
  is preprocessed to its length; the interpreter answers class 0 for a row of odd length
  and class 1 for a row of even length; every benchmark run takes one millisecond; a
  path is joined with a slash. The original model measures 30 MB at moment 0 and one MB
  more at every later moment.
\<close>

definition example_details :: interpreter_details where
  "example_details = \<lparr>input_shape0 = [1, 128], output_shape0 = [1, 2], num_tensors = 10\<rparr>"

definition example_env :: "nat env" where
  "example_env =
     \<lparr>model_trained = True,
      preprocess_data = (\<lambda>texts. Inr (map length texts)),
      tflite_convert =
        (\<lambda>cfg. if inference_input_type cfg = Some TfInt8 then Inl ConverterError
               else if supported_types cfg = [] then Inr ([1, 2, 3, 4], 1 / 2)
               else if supported_types cfg = [TfFloat16] then Inr ([1, 2, 3, 4, 5, 6], 1 / 4)
               else Inr ([1, 2], 1)),
      join_path = (\<lambda>dir name. dir @ ''/'' @ name),
      mkdir = (\<lambda>path. None),
      write_file = (\<lambda>path content. None),
      read_file = (\<lambda>path. Inr [1, 2]),
      interpreter_details_of = (\<lambda>content. Inr example_details),
      interpreter_invoke =
        (\<lambda>content rows. Inr (map (\<lambda>r. [real (r mod 2), real (Suc r mod 2)]) rows)),
      clock = (\<lambda>path k. real k / 1000),
      calculate_model_size = (\<lambda>moment. Inr (30 + real moment)),
      evaluate_model = (\<lambda>moment texts labels. Inr (1 / 2, 10 + real moment)),
      write_report = (\<lambda>path report. None),
      plot_figure = (\<lambda>results path. None)\<rparr>"

definition example_prediction :: "string \<Rightarrow> nat" where
  "example_prediction text = (if even (length text) then 1 else 0)"

text \<open>Two converted models and the test corpus of the examples.\<close>

definition example_info :: "string \<Rightarrow> string \<Rightarrow> nat \<Rightarrow> real \<Rightarrow> TFLiteModelInfo" where
  "example_info path qtype n_bytes seconds =
     \<lparr>model_path = path, size_mb = real n_bytes / (1024 * 1024),
      input_shape = [1, 128], output_shape = [1, 2],
      quantization_type = qtype, inference_time_ms = 0, accuracy = 0,
      metadata = \<lparr>conversion_time_seconds = seconds, metadata_num_tensors = 10\<rparr>\<rparr>"

definition example_models :: "TFLiteModelInfo dict" where
  "example_models =
     [(''dynamic'', example_info ''models/quantized/mobile_classifier_dynamic.tflite''
                      ''dynamic'' 4 (1 / 2)),
      (''float16'', example_info ''models/quantized/mobile_classifier_float16.tflite''
                      ''float16'' 6 (1 / 4)),
      (''int8'', example_info ''models/quantized/mobile_classifier_int8.tflite''
                   ''int8_fallback'' 2 1)]"

definition example_texts :: "string list" where
  "example_texts = [''a'', ''bb'', ''ccc'']"

definition example_labels :: "int list" where
  "example_labels = [0, 0]"

definition example_metrics :: "string \<Rightarrow> nat \<Rightarrow> QuantizationMetrics" where
  "example_metrics method n_bytes =
     \<lparr>original_size_mb = 30, quantized_size_mb = real n_bytes / (1024 * 1024),
      size_reduction_ratio = 30 / (real n_bytes / (1024 * 1024)),
      original_accuracy = 1 / 2, quantized_accuracy = 1 / 3, accuracy_retention = 2 / 3,
      original_inference_ms = 10, quantized_inference_ms = 1, speedup_ratio = Finite 10,
      quantization_method = method\<rparr>"

definition example_results :: "QuantizationMetrics dict" where
  "example_results =
     [(''dynamic'', example_metrics ''dynamic'' 4),
      (''float16'', example_metrics ''float16'' 6),
      (''int8'', example_metrics ''int8'' 2)]"

text \<open>A single candidate of 3 MB with retention 0.95.\<close>

definition single_candidate :: "QuantizationMetrics dict" where
  "single_candidate = [(''int8'', candidate ''int8'' 3 (95 / 100))]"

text \<open>
  Variants of the example environment: one whose interpreter fails on every run, one in
  which the file of the \<^verbatim>\<open>dynamic\<close> model cannot be read, one in which no conversion
  succeeds, one in which the original model's size cannot be measured, one in which the
  original model cannot be evaluated, one in which only the \<^verbatim>\<open>float16\<close> conversion
  fails, one whose clock stands still, and one in which the report cannot be written.
\<close>

definition broken_interpreter_env :: "nat env" where
  "broken_interpreter_env =
     example_env\<lparr>interpreter_invoke := (\<lambda>content rows. Inl InterpreterError)\<rparr>"

definition unreadable_dynamic_env :: "nat env" where
  "unreadable_dynamic_env =
     example_env\<lparr>read_file :=
       (\<lambda>path. if path = ''models/quantized/mobile_classifier_dynamic.tflite''
               then Inl OSError else Inr [1, 2])\<rparr>"

definition no_conversion_env :: "nat env" where
  "no_conversion_env = example_env\<lparr>tflite_convert := (\<lambda>cfg. Inl ConverterError)\<rparr>"

definition no_baseline_env :: "nat env" where
  "no_baseline_env = example_env\<lparr>calculate_model_size := (\<lambda>moment. Inl OSError)\<rparr>"



definition read_only_env :: "nat env" where
  "read_only_env = example_env\<lparr>write_report := (\<lambda>path report. Some OSError)\<rparr>"

definition no_float16_env :: "nat env" where
  "no_float16_env =
     example_env\<lparr>tflite_convert :=
       (\<lambda>cfg. if supported_types cfg = [TfFloat16] then Inl ConverterError
              else tflite_convert example_env cfg)\<rparr>"

text \<open>
  The converted models and the metrics of the example without the \<^verbatim>\<open>float16\<close>
  strategy, and the metrics of the example when every benchmark run takes no time.
\<close>

definition converted_without_float16 :: "TFLiteModelInfo dict" where
  "converted_without_float16 =
     [(''dynamic'', example_info ''models/quantized/mobile_classifier_dynamic.tflite''
                      ''dynamic'' 4 (1 / 2)),
      (''int8'', example_info ''models/quantized/mobile_classifier_int8.tflite''
                   ''int8_fallback'' 2 1)]"

definition results_without_float16 :: "QuantizationMetrics dict" where
  "results_without_float16 =
     [(''dynamic'', example_metrics ''dynamic'' 4), (''int8'', example_metrics ''int8'' 2)]"


text \<open>A training corpus of 400 texts, fewer than the 500 the calibration slice asks for.\<close>

definition short_corpus :: "string list" where
  "short_corpus = replicate 400 ''sms''"

section \<open>Facts about the minimum\<close>

lemma min_loop_first_min:
  assumes "\<forall>x \<in> set xs. key x = Inr (f x)" and "kb = f best"
  shows "\<exists>pre r post. min_loop key best kb xs = Inr r \<and> best # xs = pre @ r # post \<and>
           (\<forall>y \<in> set pre. f r < f y) \<and> (\<forall>y \<in> set post. f r \<le> f y)"
  using assms
proof (induction xs arbitrary: best kb)
  case Nil
  show ?case
    by (rule exI [of _ "[]"], rule exI [of _ best], rule exI [of _ "[]"]) simp
next
  case (Cons x xs)
  have kx: "key x = Inr (f x)" and rest: "\<forall>y \<in> set xs. key y = Inr (f y)"
    using Cons.prems(1) by simp_all
  show ?case
  proof (cases "f x < f best")
    case True
    from Cons.IH [OF rest refl, of x] obtain pre r post where
      r: "min_loop key x (f x) xs = Inr r" and dec: "x # xs = pre @ r # post" and
      lt: "\<forall>y \<in> set pre. f r < f y" and le: "\<forall>y \<in> set post. f r \<le> f y"
      by blast
    have "r \<in> set (x # xs)" using dec by simp
    then have "f r \<le> f x"
    proof (cases pre)
      case Nil
      then show ?thesis using dec by simp
    next
      case (Cons p ps)
      then have "x \<in> set pre" using dec by simp
      then show ?thesis using lt by fastforce
    qed
    then have "f r < f best" using True by simp
    then have "\<forall>y \<in> set (best # pre). f r < f y" using lt by simp
    moreover have "best # x # xs = (best # pre) @ r # post" using dec by simp
    moreover have "min_loop key best kb (x # xs) = Inr r"
      using kx True r Cons.prems(2) by simp
    ultimately show ?thesis using le by blast
  next
    case False
    from Cons.IH [OF rest Cons.prems(2)] obtain pre r post where
      r: "min_loop key best kb xs = Inr r" and dec: "best # xs = pre @ r # post" and
      lt: "\<forall>y \<in> set pre. f r < f y" and le: "\<forall>y \<in> set post. f r \<le> f y"
      by blast
    have run: "min_loop key best kb (x # xs) = Inr r"
      using kx False r Cons.prems(2) by simp
    show ?thesis
    proof (cases pre)
      case Nil
      then have "r = best" and "post = xs" using dec by simp_all
      then have "best # x # xs = [] @ r # (x # post)" by simp
      moreover have "\<forall>y \<in> set (x # post). f r \<le> f y"
        using le False \<open>r = best\<close> by simp
      ultimately show ?thesis using run by (metis empty_iff list.set(1))
    next
      case (Cons p ps)
      then have p: "p = best" and xs: "xs = ps @ r # post" using dec by simp_all
      have "f r < f best" using lt Cons p by simp
      then have "f r < f x" using False by simp
      then have "\<forall>y \<in> set (best # x # ps). f r < f y" using lt Cons p by simp
      moreover have "best # x # xs = (best # x # ps) @ r # post" using xs by simp
      ultimately show ?thesis using run le by blast
    qed
  qed
qed

lemma py_min_first_min:
  assumes "xs \<noteq> []" and "\<forall>x \<in> set xs. key x = Inr (f x)"
  shows "\<exists>pre r post. py_min key xs = Inr r \<and> xs = pre @ r # post \<and>
           (\<forall>y \<in> set pre. f r < f y) \<and> (\<forall>y \<in> set post. f r \<le> f y)"
proof (cases xs)
  case Nil
  then show ?thesis using assms(1) by simp
next
  case (Cons x rest)
  have "key x = Inr (f x)" and "\<forall>y \<in> set rest. key y = Inr (f y)"
    using assms(2) Cons by simp_all
  then show ?thesis
    using min_loop_first_min [of rest key f "f x" x] Cons by (simp add: py_min_def)
qed

section \<open>Selection picks the first smallest candidate\<close>

lemma select_fallback_first_min:
  assumes ne: "evaluation_results \<noteq> []" and dist: "distinct (map fst evaluation_results)"
  shows "\<exists>pre m met post.
      py_min (\<lambda>m. map_sum id quantized_size_mb (dict_getitem evaluation_results m))
             (map fst evaluation_results) = Inr m \<and>
      evaluation_results = pre @ (m, met) # post \<and>
      (\<forall>(m', met') \<in> set pre. quantized_size_mb met < quantized_size_mb met') \<and>
      (\<forall>(m', met') \<in> set post. quantized_size_mb met \<le> quantized_size_mb met')"
proof -
  define f where "f = (\<lambda>m. quantized_size_mb (the (map_of evaluation_results m)))"
  define key where
    "key = (\<lambda>m. map_sum id quantized_size_mb (dict_getitem evaluation_results m))"
  have look: "map_of evaluation_results (fst e) = Some (snd e)"
    if "e \<in> set evaluation_results" for e
  proof -
    have "(fst e, snd e) \<in> set evaluation_results" using that by simp
    then show ?thesis using dist by (simp only: map_of_eq_Some_iff)
  qed
  have fe: "f (fst e) = quantized_size_mb (snd e)" if "e \<in> set evaluation_results" for e
    using look [OF that] by (simp add: f_def)
  have "\<forall>m \<in> set (map fst evaluation_results). key m = Inr (f m)"
  proof
    fix m assume "m \<in> set (map fst evaluation_results)"
    then obtain e where e: "e \<in> set evaluation_results" and m: "m = fst e" by auto
    show "key m = Inr (f m)"
      using look [OF e] m by (simp add: key_def f_def dict_getitem_def)
  qed
  moreover have "map fst evaluation_results \<noteq> []" using ne by simp
  ultimately obtain kpre r kpost where
    r: "py_min key (map fst evaluation_results) = Inr r" and
    dec: "map fst evaluation_results = kpre @ r # kpost" and
    lt: "\<forall>y \<in> set kpre. f r < f y" and le: "\<forall>y \<in> set kpost. f r \<le> f y"
    using py_min_first_min [of "map fst evaluation_results" key f] by blast
  from dec obtain pre e post where
    ev: "evaluation_results = pre @ e # post" and
    pre: "map fst pre = kpre" and e: "fst e = r" and post: "map fst post = kpost"
    by (auto simp: map_eq_append_conv map_eq_Cons_conv)
  have ein: "e \<in> set evaluation_results" using ev by simp
  have fr: "f r = quantized_size_mb (snd e)" using fe [OF ein] e by simp
  have "\<forall>y \<in> set pre. quantized_size_mb (snd e) < quantized_size_mb (snd y)"
  proof
    fix y assume y: "y \<in> set pre"
    then have "fst y \<in> set kpre" using pre by auto
    moreover have "y \<in> set evaluation_results" using y ev by simp
    ultimately show "quantized_size_mb (snd e) < quantized_size_mb (snd y)"
      using lt fe fr by fastforce
  qed
  moreover have "\<forall>y \<in> set post. quantized_size_mb (snd e) \<le> quantized_size_mb (snd y)"
  proof
    fix y assume y: "y \<in> set post"
    then have "fst y \<in> set kpost" using post by auto
    moreover have "y \<in> set evaluation_results" using y ev by simp
    ultimately show "quantized_size_mb (snd e) \<le> quantized_size_mb (snd y)"
      using le fe fr by fastforce
  qed
  moreover have "evaluation_results = pre @ (r, snd e) # post" using ev e by auto
  moreover note r [unfolded key_def]
  ultimately show ?thesis
    by (intro exI [of _ pre] exI [of _ r] exI [of _ "snd e"] exI [of _ post])
       (simp add: case_prod_beta)
qed

lemma select_valid_first_min:
  fixes valid :: "QuantizationMetrics dict"
  assumes "valid \<noteq> []"
  shows "\<exists>pre m met post.
      map_sum id fst (py_min (\<lambda>x. Inr (quantized_size_mb (snd x))) valid) = Inr m \<and>
      valid = pre @ (m, met) # post \<and>
      (\<forall>(m', met') \<in> set pre. quantized_size_mb met < quantized_size_mb met') \<and>
      (\<forall>(m', met') \<in> set post. quantized_size_mb met \<le> quantized_size_mb met')"
proof -
  define key :: "string \<times> QuantizationMetrics \<Rightarrow> py_error + real" where
    "key = (\<lambda>x. Inr (quantized_size_mb (snd x)))"
  define f :: "string \<times> QuantizationMetrics \<Rightarrow> real" where
    "f = (\<lambda>x. quantized_size_mb (snd x))"
  have "\<forall>x \<in> set valid. key x = Inr (f x)" by (simp add: key_def f_def)
  from py_min_first_min [OF assms this] obtain pre r post where
    r: "py_min key valid = Inr r" and
    dec: "valid = pre @ r # post" and
    lt0: "\<forall>y \<in> set pre. f r < f y" and
    le0: "\<forall>y \<in> set post. f r \<le> f y"
    by blast
  have lt: "\<forall>y \<in> set pre. quantized_size_mb (snd r) < quantized_size_mb (snd y)"
    using lt0 by (simp add: f_def)
  have le: "\<forall>y \<in> set post. quantized_size_mb (snd r) \<le> quantized_size_mb (snd y)"
    using le0 by (simp add: f_def)
  have "valid = pre @ (fst r, snd r) # post" using dec by simp
  moreover have "map_sum id fst (py_min (\<lambda>x. Inr (quantized_size_mb (snd x))) valid) = Inr (fst r)"
    using r by (simp add: key_def)
  ultimately show ?thesis using lt le
    by (intro exI [of _ pre] exI [of _ "fst r"] exI [of _ "snd r"] exI [of _ post])
       (simp add: case_prod_beta)
qed

text \<open>
  \<^bold>\<open>Claim C1.\<close> For every non-empty metrics dict and thresholds \<open>s\<close>
  (\<^verbatim>\<open>size_threshold_mb\<close>) and \<open>a\<close> (\<^verbatim>\<open>accuracy_threshold\<close>), the selection filters to
  the methods with \<open>quantized_size_mb \<le> s\<close> and \<open>accuracy_retention \<ge> a\<close>. When the
  filtered list is non-empty the returned method is its member of smallest
  \<open>quantized_size_mb\<close>, the first such in insertion order: every entry before it is
  strictly larger, every entry after it is at least as large. When the filtered list is
  empty the same holds with respect to the whole dict.
\<close>

theorem select_best_quantization_first_smallest:
  assumes "evaluation_results \<noteq> []" and "distinct (map fst evaluation_results)"
  shows "\<exists>pre m met post.
      select_best_quantization evaluation_results s a = Inr m \<and>
      (let valid = filter (\<lambda>(method, metrics).
                             quantized_size_mb metrics \<le> s \<and> accuracy_retention metrics \<ge> a)
                          evaluation_results
       in if valid \<noteq> [] then valid else evaluation_results) = pre @ (m, met) # post \<and>
      (\<forall>(m', met') \<in> set pre. quantized_size_mb met < quantized_size_mb met') \<and>
      (\<forall>(m', met') \<in> set post. quantized_size_mb met \<le> quantized_size_mb met')"
proof -
  define valid where
    "valid = filter (\<lambda>(method, metrics).
                       quantized_size_mb metrics \<le> s \<and> accuracy_retention metrics \<ge> a)
                    evaluation_results"
  show ?thesis
  proof (cases "valid = []")
    case True
    then show ?thesis
      using select_fallback_first_min [OF assms]
      unfolding select_best_quantization_def Let_def valid_def by simp
  next
    case False
    then show ?thesis
      using select_valid_first_min [OF False]
      unfolding select_best_quantization_def Let_def valid_def by simp
  qed
qed

theorem select_best_quantization_first_smallest_witness:
  "scenario_candidates \<noteq> [] \<and> distinct (map fst scenario_candidates) \<and>
   (\<exists>pre m met post.
      select_best_quantization scenario_candidates 20 (9 / 10) = Inr m \<and>
      (let valid = filter (\<lambda>(method, metrics).
                             quantized_size_mb metrics \<le> 20 \<and> accuracy_retention metrics \<ge> 9 / 10)
                          scenario_candidates
       in if valid \<noteq> [] then valid else scenario_candidates) = pre @ (m, met) # post \<and>
      (\<forall>(m', met') \<in> set pre. quantized_size_mb met < quantized_size_mb met') \<and>
      (\<forall>(m', met') \<in> set post. quantized_size_mb met \<le> quantized_size_mb met'))"
proof -
  have ne: "scenario_candidates \<noteq> []" by (simp add: scenario_candidates_def)
  have d: "distinct (map fst scenario_candidates)" by (simp add: scenario_candidates_def)
  show ?thesis
    using ne d select_best_quantization_first_smallest [OF ne d, of 20 "9 / 10"] by blast
qed

text \<open>Scenarios A and B of the specification, evaluated.\<close>

lemma scenario_A: "select_best_quantization scenario_candidates 20 (9 / 10) = Inr ''dynamic''"
  by (simp add: select_best_quantization_def scenario_candidates_def candidate_def py_min_def)

lemma scenario_B: "select_best_quantization scenario_candidates 5 (9 / 10) = Inr ''int8''"
  by (simp add: select_best_quantization_def scenario_candidates_def candidate_def py_min_def
      dict_getitem_def)

section \<open>Selection ignores latency\<close>

lemma min_loop_related:
  fixes xs ys :: "QuantizationMetrics dict"
  assumes "list_all2 (\<lambda>x y. fst x = fst y \<and> quantized_size_mb (snd x) = quantized_size_mb (snd y)) xs ys"
      and "fst b1 = fst b2"
  shows "map_sum id fst (min_loop (\<lambda>x. Inr (quantized_size_mb (snd x))) b1 kb xs) =
         map_sum id fst (min_loop (\<lambda>x. Inr (quantized_size_mb (snd x))) b2 kb ys)"
  using assms
proof (induction xs ys arbitrary: b1 b2 kb rule: list_all2_induct)
  case Nil
  then show ?case by simp
next
  case (Cons x xs y ys)
  have xy: "fst x = fst y" "quantized_size_mb (snd x) = quantized_size_mb (snd y)"
    using Cons.hyps(1) by simp_all
  show ?case
  proof (cases "quantized_size_mb (snd y) < kb")
    case True
    then show ?thesis using Cons.IH [OF xy(1), of "quantized_size_mb (snd y)"] xy(2) by simp
  next
    case False
    then show ?thesis using Cons.IH [OF Cons.prems, of kb] xy(2) by simp
  qed
qed

lemma py_min_related:
  fixes xs ys :: "QuantizationMetrics dict"
  assumes "list_all2 (\<lambda>x y. fst x = fst y \<and> quantized_size_mb (snd x) = quantized_size_mb (snd y)) xs ys"
  shows "map_sum id fst (py_min (\<lambda>x. Inr (quantized_size_mb (snd x))) xs) =
         map_sum id fst (py_min (\<lambda>x. Inr (quantized_size_mb (snd x))) ys)"
proof (cases xs)
  case Nil
  then show ?thesis using assms by simp
next
  case (Cons x xs')
  then obtain y ys' where ys: "ys = y # ys'" and xy: "fst x = fst y"
      "quantized_size_mb (snd x) = quantized_size_mb (snd y)" and
      rest: "list_all2 (\<lambda>x y. fst x = fst y \<and> quantized_size_mb (snd x) = quantized_size_mb (snd y)) xs' ys'"
    using assms by (auto simp: list_all2_Cons1)
  show ?thesis
    using min_loop_related [OF rest xy(1)] xy(2) by (simp add: py_min_def Cons ys)
qed

lemma map_of_related:
  fixes xs ys :: "QuantizationMetrics dict"
  assumes "list_all2 (\<lambda>x y. fst x = fst y \<and> quantized_size_mb (snd x) = quantized_size_mb (snd y)) xs ys"
  shows "map_option quantized_size_mb (map_of xs m) = map_option quantized_size_mb (map_of ys m)"
  using assms by (induction xs ys rule: list_all2_induct) auto

lemma same_length_empty: "length xs = length ys \<Longrightarrow> (xs = []) = (ys = [])"
  by (cases xs; cases ys) simp_all

lemma filter_related:
  assumes "list_all2 R xs ys" and "\<And>x y. R x y \<Longrightarrow> P x = Q y"
  shows "list_all2 R (filter P xs) (filter Q ys)"
  using assms by (induction xs ys rule: list_all2_induct) auto

text \<open>
  \<^bold>\<open>Claim C9.\<close> The selection depends only on each candidate's size and
  accuracy retention: two metrics dicts with the same methods in the same order that
  agree, method by method, on \<open>quantized_size_mb\<close> and \<open>accuracy_retention\<close> give the
  same result, whatever their other fields (latency and speed-up among them) are.
\<close>

theorem select_depends_only_on_size_and_retention:
  assumes keys: "map fst ev1 = map fst ev2"
      and sizes: "map (\<lambda>(m, met). quantized_size_mb met) ev1 = map (\<lambda>(m, met). quantized_size_mb met) ev2"
      and rets: "map (\<lambda>(m, met). accuracy_retention met) ev1 = map (\<lambda>(m, met). accuracy_retention met) ev2"
  shows "select_best_quantization ev1 s a = select_best_quantization ev2 s a"
proof -
  let ?R = "\<lambda>x y :: string \<times> QuantizationMetrics.
              fst x = fst y \<and> quantized_size_mb (snd x) = quantized_size_mb (snd y)"
  let ?P = "\<lambda>(method, metrics). quantized_size_mb metrics \<le> s \<and> accuracy_retention metrics \<ge> a"
  have len: "length ev1 = length ev2" using keys by (metis length_map)
  have nth: "fst (ev1 ! i) = fst (ev2 ! i) \<and>
             quantized_size_mb (snd (ev1 ! i)) = quantized_size_mb (snd (ev2 ! i)) \<and>
             accuracy_retention (snd (ev1 ! i)) = accuracy_retention (snd (ev2 ! i))"
    if "i < length ev1" for i
  proof -
    have "map fst ev1 ! i = map fst ev2 ! i" using keys by simp
    moreover have "map (\<lambda>(m, met). quantized_size_mb met) ev1 ! i =
                   map (\<lambda>(m, met). quantized_size_mb met) ev2 ! i" using sizes by simp
    moreover have "map (\<lambda>(m, met). accuracy_retention met) ev1 ! i =
                   map (\<lambda>(m, met). accuracy_retention met) ev2 ! i" using rets by simp
    ultimately show ?thesis using that len by (simp add: case_prod_beta)
  qed
  let ?R3 = "\<lambda>x y. ?R x y \<and> accuracy_retention (snd x) = accuracy_retention (snd y)"
  have r3: "list_all2 ?R3 ev1 ev2"
    using len nth by (simp add: list_all2_conv_all_nth)
  have rel: "list_all2 ?R ev1 ev2"
    using r3 by (rule list_all2_mono) simp
  have "list_all2 ?R3 (filter ?P ev1) (filter ?P ev2)"
    using r3 by (rule filter_related) (simp add: case_prod_beta)
  then have valid: "list_all2 ?R (filter ?P ev1) (filter ?P ev2)"
    by (rule list_all2_mono) simp
  have empty: "filter ?P ev1 = [] \<longleftrightarrow> filter ?P ev2 = []"
    using valid by (intro same_length_empty list_all2_lengthD)
  have key: "(\<lambda>m. map_sum id quantized_size_mb (dict_getitem ev1 m)) =
             (\<lambda>m. map_sum id quantized_size_mb (dict_getitem ev2 m))"
  proof
    fix m
    show "map_sum id quantized_size_mb (dict_getitem ev1 m) =
          map_sum id quantized_size_mb (dict_getitem ev2 m)"
      using map_of_related [OF rel, of m]
      by (cases "map_of ev1 m"; cases "map_of ev2 m") (simp_all add: dict_getitem_def)
  qed
  show ?thesis
  proof (cases "filter ?P ev1 = []")
    case True
    then have "filter ?P ev2 = []" using empty by simp
    with True show ?thesis
      by (simp add: select_best_quantization_def Let_def key keys)
  next
    case False
    then have "filter ?P ev2 \<noteq> []" using empty by simp
    with False show ?thesis
      using py_min_related [OF valid] by (simp add: select_best_quantization_def Let_def)
  qed
qed

theorem select_depends_only_on_size_and_retention_witness:
  "map fst scenario_candidates = map fst scenario_candidates_slow \<and>
   map (\<lambda>(m, met). quantized_size_mb met) scenario_candidates =
     map (\<lambda>(m, met). quantized_size_mb met) scenario_candidates_slow \<and>
   map (\<lambda>(m, met). accuracy_retention met) scenario_candidates =
     map (\<lambda>(m, met). accuracy_retention met) scenario_candidates_slow \<and>
   scenario_candidates \<noteq> scenario_candidates_slow \<and>
   select_best_quantization scenario_candidates 20 (9 / 10) =
     select_best_quantization scenario_candidates_slow 20 (9 / 10)"
proof -
  have k: "map fst scenario_candidates = map fst scenario_candidates_slow"
    by (simp add: scenario_candidates_slow_def scenario_candidates_def)
  have s: "map (\<lambda>(m, met). quantized_size_mb met) scenario_candidates =
           map (\<lambda>(m, met). quantized_size_mb met) scenario_candidates_slow"
    by (simp add: scenario_candidates_slow_def scenario_candidates_def slower_def)
  have r: "map (\<lambda>(m, met). accuracy_retention met) scenario_candidates =
           map (\<lambda>(m, met). accuracy_retention met) scenario_candidates_slow"
    by (simp add: scenario_candidates_slow_def scenario_candidates_def slower_def)
  have d: "scenario_candidates \<noteq> scenario_candidates_slow"
    by (simp add: scenario_candidates_slow_def scenario_candidates_def slower_def
        candidate_def)
  show ?thesis
    using k s r d select_depends_only_on_size_and_retention [OF k s r, of 20 "9 / 10"]
    by blast
qed

section \<open>Conversion and its retry\<close>

lemma quantize_int8_with_fallback:
  "quantize_int8 env output_path calibration_texts True =
     (case create_representative_dataset env calibration_texts 1 of
        Inl e \<Rightarrow> (Inl e, [])
      | Inr dataset \<Rightarrow>
          (case tflite_convert env (int8_config dataset True) of
             Inl e \<Rightarrow> (Inl e, [int8_config dataset True])
           | Inr converted \<Rightarrow>
               (save_and_describe env output_path ''int8_fallback'' converted,
                [int8_config dataset True])))"
  by (subst quantize_int8.simps) (simp add: Let_def split: sum.splits)

lemma quantize_int8_strict:
  "quantize_int8 env output_path calibration_texts False =
     (case create_representative_dataset env calibration_texts 1 of
        Inl e \<Rightarrow> (Inl e, [])
      | Inr dataset \<Rightarrow>
          (case tflite_convert env (int8_config dataset False) of
             Inl e \<Rightarrow>
               (case quantize_int8 env output_path calibration_texts True of
                  (r, attempts) \<Rightarrow> (r, int8_config dataset False # attempts))
           | Inr converted \<Rightarrow>
               (save_and_describe env output_path ''int8'' converted,
                [int8_config dataset False])))"
  by (subst quantize_int8.simps) (simp add: Let_def split: sum.splits)

lemma quantize_int8_attempts_bound:
  "length (snd (quantize_int8 env output_path calibration_texts use_fallback)) \<le> 2"
proof (cases use_fallback)
  case True
  then show ?thesis
    by (simp add: quantize_int8_with_fallback split: sum.splits)
next
  case False
  then show ?thesis
    by (simp add: quantize_int8_strict quantize_int8_with_fallback split: sum.splits prod.splits)
qed

text \<open>
  \<^bold>\<open>Claim C6.\<close> \<^verbatim>\<open>quantize_int8\<close> with \<^verbatim>\<open>use_fallback = False\<close> is the strict
  variant and the one that declares a fallback. When its conversion fails, the method
  runs exactly once more, with \<^verbatim>\<open>use_fallback = True\<close>: the converter is called
  twice, first with the strict and then with the relaxed configuration, and the result
  is the result of the second call, be it a model or the error of the retry. The call
  with \<^verbatim>\<open>use_fallback = True\<close> converts once and never retries, so no call of the
  method converts more than twice.
\<close>

theorem quantize_int8_retries_once:
  assumes ds: "create_representative_dataset env calibration_texts 1 = Inr dataset"
      and strict: "tflite_convert env (int8_config dataset False) = Inl e"
  shows "quantize_int8 env output_path calibration_texts False =
           (case tflite_convert env (int8_config dataset True) of
              Inl e' \<Rightarrow> (Inl e', [int8_config dataset False, int8_config dataset True])
            | Inr converted \<Rightarrow>
                (save_and_describe env output_path ''int8_fallback'' converted,
                 [int8_config dataset False, int8_config dataset True])) \<and>
         quantize_int8 env output_path calibration_texts False =
           (fst (quantize_int8 env output_path calibration_texts True),
            int8_config dataset False #
            snd (quantize_int8 env output_path calibration_texts True)) \<and>
         snd (quantize_int8 env output_path calibration_texts True) = [int8_config dataset True] \<and>
         length (snd (quantize_int8 env output_path calibration_texts use_fallback)) \<le> 2"
  using ds strict quantize_int8_attempts_bound [of env output_path calibration_texts use_fallback]
  by (simp add: quantize_int8_strict quantize_int8_with_fallback split: sum.splits)

theorem quantize_int8_retries_once_witness:
  "create_representative_dataset example_env [''aa'', ''bbb''] 1 = Inr (Inr [[2], [3]]) \<and>
   tflite_convert example_env (int8_config (Inr [[2], [3]]) False) = Inl ConverterError \<and>
   quantize_int8 example_env ''int8.tflite'' [''aa'', ''bbb''] False =
     (Inr \<lparr>model_path = ''int8.tflite'', size_mb = 2 / (1024 * 1024),
           input_shape = [1, 128], output_shape = [1, 2],
           quantization_type = ''int8_fallback'', inference_time_ms = 0, accuracy = 0,
           metadata = \<lparr>conversion_time_seconds = 1, metadata_num_tensors = 10\<rparr>\<rparr>,
      [int8_config (Inr [[2], [3]]) False, int8_config (Inr [[2], [3]]) True])"
proof -
  have ds: "create_representative_dataset example_env [''aa'', ''bbb''] 1 = Inr (Inr [[2], [3]])"
    by (simp add: create_representative_dataset_def representative_data_gen_def
        example_env_def Let_def upt_rec)
  have strict: "tflite_convert example_env (int8_config (Inr [[2], [3]]) False) =
                Inl ConverterError"
    by (simp add: example_env_def int8_config_def)
  have relaxed: "tflite_convert example_env (int8_config (Inr [[2], [3]]) True) =
                 Inr ([1, 2], 1)"
    by (simp add: example_env_def int8_config_def)
  have save: "save_and_describe example_env ''int8.tflite'' ''int8_fallback'' ([1, 2], 1) =
     Inr \<lparr>model_path = ''int8.tflite'', size_mb = 2 / (1024 * 1024),
          input_shape = [1, 128], output_shape = [1, 2],
          quantization_type = ''int8_fallback'', inference_time_ms = 0, accuracy = 0,
          metadata = \<lparr>conversion_time_seconds = 1, metadata_num_tensors = 10\<rparr>\<rparr>"
    by (simp add: save_and_describe_def get_tflite_model_info_def example_env_def
        example_details_def)
  show ?thesis
    using ds strict quantize_int8_retries_once [OF ds strict, of "''int8.tflite''" True]
    by (simp add: relaxed save)
qed

section \<open>Benchmark statistics\<close>

lemma benchmark_loop_success:
  assumes "interpreter_invoke env content processed = Inr out"
  shows "benchmark_loop env path content processed n k run_times fed =
         Inr (run_times @ map (\<lambda>i. (clock env path (k + 2 * i + 1) - clock env path (k + 2 * i)) * 1000) [0..<n],
              fed @ replicate n processed)"
proof (induction n arbitrary: k run_times fed)
  case 0
  then show ?case by simp
next
  case (Suc n)
  show ?case
    using assms by (simp add: Suc.IH map_upt_Suc del: upt_Suc)
qed

lemma np_min_Min: "xs \<noteq> [] \<Longrightarrow> np_min xs = Inr (Min (set xs))"
  by (cases xs, simp, simp only: np_min_def list.case Min.set_eq_fold)

lemma np_max_Max: "xs \<noteq> [] \<Longrightarrow> np_max xs = Inr (Max (set xs))"
  by (cases xs, simp, simp only: np_max_def list.case Max.set_eq_fold)

lemma benchmark_loop_failure:
  assumes "interpreter_invoke env content processed = Inl e"
  shows "benchmark_loop env path content processed (Suc n) k run_times fed = Inl e"
  using assms by simp

text \<open>
  \<^bold>\<open>Claim C8.\<close> When the model file loads and the sample text is preprocessed,
  \<^verbatim>\<open>benchmark_tflite_model\<close> with \<open>num_runs > 0\<close> hands the one preprocessed sample
  (the first test text, or \<^verbatim>\<open>"Test message"\<close>) to the interpreter, and what the
  interpreter does with that sample decides the result. If the interpreter fails, the
  benchmark fails with the interpreter's error. If it runs, the sample is run
  \<open>num_runs\<close> times, one run after the other: run \<open>i\<close> lies between clock readings
  \<open>2 i\<close> and \<open>2 i + 1\<close> and its time is their difference in milliseconds. No run is
  discarded, and the result holds the mean, the minimum, the maximum and the population
  standard deviation of these \<open>num_runs\<close> times (and their sum in seconds). The default
  of \<open>num_runs\<close> is \<^const>\<open>default_num_runs\<close>, 100.
\<close>

theorem benchmark_tflite_model_statistics:
  assumes fl: "read_file env path = Inr content"
      and interp: "interpreter_details_of env content = Inr details"
      and prep: "preprocess_data env [case test_texts of [] \<Rightarrow> ''Test message'' | t # rest \<Rightarrow> t]
                   = Inr processed"
      and runs: "0 < num_runs"
  shows "\<exists>ts. ts = map (\<lambda>i. (clock env path (2 * i + 1) - clock env path (2 * i)) * 1000)
                      [0..<nat num_runs] \<and>
           length ts = nat num_runs \<and>
           benchmark_tflite_model env path test_texts num_runs =
             (case interpreter_invoke env content processed of
                Inl e \<Rightarrow> Inl e
              | Inr out \<Rightarrow>
                  Inr (\<lparr>avg_inference_time_ms = sum_list ts / real (length ts),
                        min_inference_time_ms = Min (set ts),
                        max_inference_time_ms = Max (set ts),
                        std_inference_time_ms =
                          sqrt (sum_list (map (\<lambda>t. (t - sum_list ts / real (length ts))\<^sup>2) ts)
                                / real (length ts)),
                        total_benchmark_time_s = sum_list ts / 1000\<rparr>,
                       replicate (nat num_runs) processed))"
proof -
  define ts where
    "ts = map (\<lambda>i. (clock env path (2 * i + 1) - clock env path (2 * i)) * 1000) [0..<nat num_runs]"
  have len: "length ts = nat num_runs" by (simp add: ts_def)
  have ne: "ts \<noteq> []" using len runs by auto
  have "benchmark_tflite_model env path test_texts num_runs =
          (case interpreter_invoke env content processed of
             Inl e \<Rightarrow> Inl e
           | Inr out \<Rightarrow>
               Inr (\<lparr>avg_inference_time_ms = sum_list ts / real (length ts),
                     min_inference_time_ms = Min (set ts),
                     max_inference_time_ms = Max (set ts),
                     std_inference_time_ms =
                       sqrt (sum_list (map (\<lambda>t. (t - sum_list ts / real (length ts))\<^sup>2) ts)
                             / real (length ts)),
                     total_benchmark_time_s = sum_list ts / 1000\<rparr>,
                    replicate (nat num_runs) processed))"
  proof (cases "interpreter_invoke env content processed")
    case (Inl e)
    obtain n where n: "nat num_runs = Suc n" using runs by (cases "nat num_runs") auto
    have "benchmark_loop env path content processed (nat num_runs) 0 [] [] = Inl e"
      unfolding n using Inl by (rule benchmark_loop_failure)
    then show ?thesis
      unfolding benchmark_tflite_model_def by (simp add: fl interp prep Inl Let_def)
  next
    case (Inr out)
    have loop: "benchmark_loop env path content processed (nat num_runs) 0 [] [] =
                Inr (ts, replicate (nat num_runs) processed)"
      using benchmark_loop_success [OF Inr, of path "nat num_runs" 0 "[]" "[]"]
      by (simp add: ts_def)
    show ?thesis
      unfolding benchmark_tflite_model_def
      by (simp add: fl interp prep loop np_min_Min [OF ne] np_max_Max [OF ne] Let_def Inr
            np_std_def np_mean_def)
  qed
  then show ?thesis
    using len unfolding ts_def by blast
qed

text \<open>A hundred runs of \<open>c\<close> milliseconds each.\<close>

lemma benchmark_constant_runs:
  assumes rd: "read_file env path = Inr content"
      and det: "interpreter_details_of env content = Inr details"
      and prep: "preprocess_data env [case test_texts of [] \<Rightarrow> ''Test message'' | t # rest \<Rightarrow> t]
                   = Inr processed"
      and inv: "interpreter_invoke env content processed = Inr out"
      and clk: "\<And>k. clock env path k = real k * c / 1000"
  shows "benchmark_tflite_model env path test_texts default_num_runs =
     Inr (\<lparr>avg_inference_time_ms = c, min_inference_time_ms = c, max_inference_time_ms = c,
           std_inference_time_ms = 0, total_benchmark_time_s = c / 10\<rparr>,
          replicate 100 processed)"
proof -
  have one: "(clock env path (0 + 2 * i + 1) - clock env path (0 + 2 * i)) * 1000 = c" for i
    unfolding clk by (simp add: field_simps)
  have ts: "map (\<lambda>i. (clock env path (0 + 2 * i + 1) - clock env path (0 + 2 * i)) * 1000)
              [0..<100] = replicate 100 c"
    by (simp only: one) (simp add: map_replicate_const)
  have loop: "benchmark_loop env path content processed 100 0 [] [] =
              Inr (replicate 100 c, replicate 100 processed)"
    using benchmark_loop_success [OF inv, of path 100 0 "[]" "[]"]
    by (simp only: ts append_Nil)
  have mn: "np_min (replicate 100 c) = Inr c"
    by (subst np_min_Min) simp_all
  have mx: "np_max (replicate 100 c) = Inr c"
    by (subst np_max_Max) simp_all
  have mean: "np_mean (replicate 100 c) = c"
    by (simp add: np_mean_def sum_list_replicate)
  have std: "np_std (replicate 100 c) = 0"
    unfolding np_std_def mean by (simp add: np_mean_def sum_list_replicate)
  show ?thesis
    unfolding benchmark_tflite_model_def Let_def
    by (simp add: rd det prep default_num_runs_def loop mn mx mean std sum_list_replicate)
qed

theorem benchmark_tflite_model_statistics_witness:
  "read_file example_env ''m.tflite'' = Inr [1, 2] \<and>
   interpreter_details_of example_env [1, 2] = Inr example_details \<and>
   preprocess_data example_env [''hello''] = Inr [5] \<and>
   interpreter_invoke example_env [1, 2] [5] = Inr [[1, 0]] \<and>
   0 < default_num_runs \<and>
   benchmark_tflite_model example_env ''m.tflite'' [''hello''] default_num_runs =
     Inr (\<lparr>avg_inference_time_ms = 1, min_inference_time_ms = 1, max_inference_time_ms = 1,
           std_inference_time_ms = 0, total_benchmark_time_s = 1 / 10\<rparr>,
          replicate 100 [5]) \<and>
   (\<exists>ts. ts = map (\<lambda>i. (clock example_env ''m.tflite'' (2 * i + 1)
                          - clock example_env ''m.tflite'' (2 * i)) * 1000)
                  [0..<nat default_num_runs] \<and>
         length ts = nat default_num_runs \<and>
         benchmark_tflite_model example_env ''m.tflite'' [''hello''] default_num_runs =
           Inr (\<lparr>avg_inference_time_ms = sum_list ts / real (length ts),
                 min_inference_time_ms = Min (set ts),
                 max_inference_time_ms = Max (set ts),
                 std_inference_time_ms =
                   sqrt (sum_list (map (\<lambda>t. (t - sum_list ts / real (length ts))\<^sup>2) ts)
                         / real (length ts)),
                 total_benchmark_time_s = sum_list ts / 1000\<rparr>,
                replicate (nat default_num_runs) [5])) \<and>
   read_file broken_interpreter_env ''m.tflite'' = Inr [1, 2] \<and>
   interpreter_details_of broken_interpreter_env [1, 2] = Inr example_details \<and>
   preprocess_data broken_interpreter_env [''hello''] = Inr [5] \<and>
   interpreter_invoke broken_interpreter_env [1, 2] [5] = Inl InterpreterError \<and>
   benchmark_tflite_model broken_interpreter_env ''m.tflite'' [''hello''] default_num_runs =
     Inl InterpreterError"
proof -
  have rd: "read_file example_env ''m.tflite'' = Inr [1, 2]"
    by (simp add: example_env_def)
  have det: "interpreter_details_of example_env [1, 2] = Inr example_details"
    by (simp add: example_env_def)
  have prep: "preprocess_data example_env
                [case [''hello''] of [] \<Rightarrow> ''Test message'' | t # rest \<Rightarrow> t] = Inr [5]"
    by (simp add: example_env_def)
  have inv: "interpreter_invoke example_env [1, 2] [5] = Inr [[1, 0]]"
    by (simp add: example_env_def)
  have runs: "0 < default_num_runs" by (simp add: default_num_runs_def)
  have prep': "preprocess_data example_env [''hello''] = Inr [5]"
    using prep by simp
  have ex: "benchmark_tflite_model example_env ''m.tflite'' [''hello''] default_num_runs =
     Inr (\<lparr>avg_inference_time_ms = 1, min_inference_time_ms = 1, max_inference_time_ms = 1,
           std_inference_time_ms = 0, total_benchmark_time_s = 1 / 10\<rparr>,
          replicate 100 [5])"
    by (rule benchmark_constant_runs [OF rd det prep inv]) (simp add: example_env_def)
  have good: "\<exists>ts. ts = map (\<lambda>i. (clock example_env ''m.tflite'' (2 * i + 1)
                          - clock example_env ''m.tflite'' (2 * i)) * 1000)
                  [0..<nat default_num_runs] \<and>
         length ts = nat default_num_runs \<and>
         benchmark_tflite_model example_env ''m.tflite'' [''hello''] default_num_runs =
           Inr (\<lparr>avg_inference_time_ms = sum_list ts / real (length ts),
                 min_inference_time_ms = Min (set ts),
                 max_inference_time_ms = Max (set ts),
                 std_inference_time_ms =
                   sqrt (sum_list (map (\<lambda>t. (t - sum_list ts / real (length ts))\<^sup>2) ts)
                         / real (length ts)),
                 total_benchmark_time_s = sum_list ts / 1000\<rparr>,
                replicate (nat default_num_runs) [5])"
    using benchmark_tflite_model_statistics [OF rd det prep runs] by (simp add: inv)
  have rd2: "read_file broken_interpreter_env ''m.tflite'' = Inr [1, 2]"
    by (simp add: broken_interpreter_env_def example_env_def)
  have det2: "interpreter_details_of broken_interpreter_env [1, 2] = Inr example_details"
    by (simp add: broken_interpreter_env_def example_env_def)
  have prep2: "preprocess_data broken_interpreter_env
                 [case [''hello''] of [] \<Rightarrow> ''Test message'' | t # rest \<Rightarrow> t] = Inr [5]"
    by (simp add: broken_interpreter_env_def example_env_def)
  have inv2: "interpreter_invoke broken_interpreter_env [1, 2] [5] = Inl InterpreterError"
    by (simp add: broken_interpreter_env_def)
  have prep2': "preprocess_data broken_interpreter_env [''hello''] = Inr [5]"
    using prep2 by simp
  have bad: "benchmark_tflite_model broken_interpreter_env ''m.tflite'' [''hello'']
               default_num_runs = Inl InterpreterError"
    using benchmark_tflite_model_statistics [OF rd2 det2 prep2 runs] by (simp add: inv2)
  show ?thesis
    using rd det prep' inv runs ex good rd2 det2 prep2' inv2 bad by blast
qed

section \<open>Accuracy\<close>

lemma count_correct_total:
  assumes "\<forall>(t, l) \<in> set pairs. predict_label env content t = Inr (pred t)"
  shows "count_correct env content pairs c =
         Inr (c + length (filter (\<lambda>(t, l). int (pred t) = l) pairs))"
  using assms by (induction pairs arbitrary: c) auto

lemma evaluate_tflite_accuracy_empty:
  "\<exists>e. evaluate_tflite_accuracy env path [] test_labels = Inl e"
  by (simp add: evaluate_tflite_accuracy_def py_truediv_def split: sum.splits)

text \<open>
  \<^bold>\<open>Claim C10.\<close> \<^verbatim>\<open>_evaluate_tflite_accuracy\<close> divides the number of correct
  predictions by \<^verbatim>\<open>len(test_texts)\<close> without a guard. It cannot return for an empty
  text list: a non-empty list is necessary for a result. When the model loads and
  every zipped text gets a prediction \<open>pred t\<close>, an empty text list gives
  \<^verbatim>\<open>ZeroDivisionError\<close>; otherwise the result is the number of zipped (text, label)
  pairs whose prediction equals the label, divided by the length of the whole text list.
  That number is at most the length of the shorter list, so texts beyond the labels
  count as incorrect.
\<close>

theorem evaluate_tflite_accuracy_denominator:
  "(\<forall>acc. evaluate_tflite_accuracy env path test_texts test_labels = Inr acc \<longrightarrow>
          test_texts \<noteq> []) \<and>
   (read_file env path = Inr content \<and>
    interpreter_details_of env content = Inr details \<and>
    (\<forall>(t, l) \<in> set (zip test_texts test_labels). predict_label env content t = Inr (pred t)) \<longrightarrow>
      evaluate_tflite_accuracy env path test_texts test_labels =
        (if test_texts = [] then Inl ZeroDivisionError
         else Inr (real (length (filter (\<lambda>(t, l). int (pred t) = l)
                                    (zip test_texts test_labels)))
                   / real (length test_texts))) \<and>
      length (filter (\<lambda>(t, l). int (pred t) = l) (zip test_texts test_labels))
        \<le> min (length test_texts) (length test_labels))"
proof (intro conjI allI impI)
  fix acc
  assume "evaluate_tflite_accuracy env path test_texts test_labels = Inr acc"
  then show "test_texts \<noteq> []"
    using evaluate_tflite_accuracy_empty [of env path test_labels] by auto
next
  assume h: "read_file env path = Inr content \<and>
    interpreter_details_of env content = Inr details \<and>
    (\<forall>(t, l) \<in> set (zip test_texts test_labels). predict_label env content t = Inr (pred t))"
  then have fl: "read_file env path = Inr content"
    and interp: "interpreter_details_of env content = Inr details"
    and preds: "\<forall>(t, l) \<in> set (zip test_texts test_labels).
                  predict_label env content t = Inr (pred t)"
    by blast+
  have "evaluate_tflite_accuracy env path test_texts test_labels =
          py_truediv (real (length (filter (\<lambda>(t, l). int (pred t) = l)
                                      (zip test_texts test_labels))))
                     (real (length test_texts))"
    unfolding evaluate_tflite_accuracy_def
    by (simp add: fl interp count_correct_total [OF preds])
  then show "evaluate_tflite_accuracy env path test_texts test_labels =
        (if test_texts = [] then Inl ZeroDivisionError
         else Inr (real (length (filter (\<lambda>(t, l). int (pred t) = l)
                                    (zip test_texts test_labels)))
                   / real (length test_texts)))"
    by (simp add: py_truediv_def)
next
  have "length (filter (\<lambda>(t, l). int (pred t) = l) (zip test_texts test_labels))
          \<le> length (zip test_texts test_labels)"
    by (rule length_filter_le)
  then show "length (filter (\<lambda>(t, l). int (pred t) = l) (zip test_texts test_labels))
          \<le> min (length test_texts) (length test_labels)"
    by simp
qed

lemma example_predict_label:
  "predict_label example_env content text = Inr (example_prediction text)"
  by (simp add: predict_label_def example_env_def np_argmax_def example_prediction_def
      even_iff_mod_2_eq_zero mod_Suc)

theorem evaluate_tflite_accuracy_denominator_witness:
  "read_file example_env ''m.tflite'' = Inr [1, 2] \<and>
   interpreter_details_of example_env [1, 2] = Inr example_details \<and>
   predict_label example_env [1, 2] ''a'' = Inr (example_prediction ''a'') \<and>
   predict_label example_env [1, 2] ''bb'' = Inr (example_prediction ''bb'') \<and>
   evaluate_tflite_accuracy example_env ''m.tflite'' [''a'', ''bb'', ''ccc''] [0, 0] = Inr (1 / 3) \<and>
   evaluate_tflite_accuracy example_env ''m.tflite'' [] [0, 0] = Inl ZeroDivisionError"
proof -
  have rd: "read_file example_env ''m.tflite'' = Inr [1, 2]"
    by (simp add: example_env_def)
  have det: "interpreter_details_of example_env [1, 2] = Inr example_details"
    by (simp add: example_env_def)
  have preds: "\<forall>(t, l) \<in> set (zip ts ls).
                 predict_label example_env [1, 2] t = Inr (example_prediction t)"
    for ts :: "string list" and ls :: "int list"
    by (simp add: example_predict_label)
  have full: "evaluate_tflite_accuracy example_env ''m.tflite'' [''a'', ''bb'', ''ccc''] [0, 0]
                = Inr (1 / 3)"
    using evaluate_tflite_accuracy_denominator
      [of example_env "''m.tflite''" "[''a'', ''bb'', ''ccc'']" "[0, 0]" "[1, 2]"
          example_details example_prediction]
      rd det preds [of "[''a'', ''bb'', ''ccc'']" "[0, 0]"]
    by (simp add: example_prediction_def)
  have empty: "evaluate_tflite_accuracy example_env ''m.tflite'' [] [0, 0] = Inl ZeroDivisionError"
    using evaluate_tflite_accuracy_denominator
      [of example_env "''m.tflite''" "[]" "[0, 0]" "[1, 2]" example_details example_prediction]
      rd det
    by simp
  show ?thesis using rd det full empty by (simp add: example_predict_label)
qed

section \<open>Facts about dicts and the maximum\<close>

lemma dict_setitem_new:
  "k \<notin> fst ` set d \<Longrightarrow> dict_setitem d k v = d @ [(k, v)]"
  by (induction d) auto

lemma max_loop_total:
  assumes "\<forall>x \<in> set xs. key x = Inr (f x)"
  shows "\<exists>r. max_loop key best kb xs = Inr r \<and> r \<in> set (best # xs)"
  using assms
proof (induction xs arbitrary: best kb)
  case Nil
  then show ?case by simp
next
  case (Cons x xs)
  have rest: "\<forall>y \<in> set xs. key y = Inr (f y)" and kx: "key x = Inr (f x)"
    using Cons.prems by simp_all
  show ?case
  proof (cases "f x > kb")
    case True
    then show ?thesis using Cons.IH [OF rest, of x "f x"] kx by auto
  next
    case False
    then show ?thesis using Cons.IH [OF rest, of best kb] kx by auto
  qed
qed

lemma py_max_total:
  assumes "xs \<noteq> []" and "\<forall>x \<in> set xs. key x = Inr (f x)"
  shows "\<exists>r. py_max key xs = Inr r \<and> r \<in> set xs"
proof (cases xs)
  case Nil
  then show ?thesis using assms(1) by simp
next
  case (Cons x rest)
  then show ?thesis
    using assms(2) max_loop_total [of rest key f x "f x"] by (auto simp: py_max_def)
qed

lemma fold_setitem_distinct:
  assumes "distinct (map fst acc @ map fst ev)"
  shows "fold (\<lambda>(method, metrics) d. dict_setitem d method (g metrics)) ev acc =
         acc @ map (\<lambda>(method, metrics). (method, g metrics)) ev"
  using assms
proof (induction ev arbitrary: acc)
  case Nil
  then show ?case by simp
next
  case (Cons x ev)
  obtain m met where x: "x = (m, met)" by (cases x)
  have new: "m \<notin> fst ` set acc" using Cons.prems x by auto
  have "distinct (map fst (acc @ [(m, g met)]) @ map fst ev)" using Cons.prems x by auto
  from Cons.IH [OF this] show ?case
    by (simp add: x dict_setitem_new [OF new])
qed

lemma dict_lookup_keys:
  assumes "distinct (map fst d)"
  shows "\<forall>k \<in> set (map fst d). map_sum id f (dict_getitem d k) = Inr (f (the (map_of d k)))"
proof
  fix k assume "k \<in> set (map fst d)"
  then obtain v where "(k, v) \<in> set d" by auto
  then have "map_of d k = Some v" using assms by simp
  then show "map_sum id f (dict_getitem d k) = Inr (f (the (map_of d k)))"
    by (simp add: dict_getitem_def)
qed

lemma quantize_all_methods_results:
  assumes "mkdir env output_dir = None"
  shows "quantize_all_methods env output_dir calibration_texts =
     Inr ((case quantize_dynamic env
                 (join_path env output_dir ''mobile_classifier_dynamic.tflite'') of
             Inl e \<Rightarrow> [] | Inr info \<Rightarrow> [(''dynamic'', info)]) @
          (case quantize_float16 env
                 (join_path env output_dir ''mobile_classifier_float16.tflite'') of
             Inl e \<Rightarrow> [] | Inr info \<Rightarrow> [(''float16'', info)]) @
          (case fst (quantize_int8 env
                       (join_path env output_dir ''mobile_classifier_int8.tflite'')
                       calibration_texts True) of
             Inl e \<Rightarrow> [] | Inr info \<Rightarrow> [(''int8'', info)]))"
  using assms by (simp add: quantize_all_methods_def Let_def split: sum.splits)

lemma quantize_all_methods_distinct:
  assumes "quantize_all_methods env output_dir calibration_texts = Inr quantized_models"
  shows "distinct (map fst quantized_models)"
proof -
  have "mkdir env output_dir = None"
    using assms by (simp add: quantize_all_methods_def split: option.splits)
  from quantize_all_methods_results [OF this, of calibration_texts] assms
  show ?thesis by (auto split: sum.splits)
qed

lemma select_best_quantization_total:
  assumes ne: "evaluation_results \<noteq> []" and dist: "distinct (map fst evaluation_results)"
  shows "\<exists>m. select_best_quantization evaluation_results s a = Inr m \<and>
             m \<in> set (map fst evaluation_results)"
proof -
  define valid where
    "valid = filter (\<lambda>(method, metrics).
                       quantized_size_mb metrics \<le> s \<and> accuracy_retention metrics \<ge> a)
                    evaluation_results"
  show ?thesis
  proof (cases "valid = []")
    case True
    from select_fallback_first_min [OF ne dist] obtain pre m met post where
      m: "py_min (\<lambda>m. map_sum id quantized_size_mb (dict_getitem evaluation_results m))
            (map fst evaluation_results) = Inr m" and
      dec: "evaluation_results = pre @ (m, met) # post"
      by blast
    have "select_best_quantization evaluation_results s a = Inr m"
      using True m unfolding select_best_quantization_def Let_def valid_def by simp
    moreover have "(m, met) \<in> set evaluation_results" by (subst dec) simp
    then have "m \<in> set (map fst evaluation_results)" by force
    ultimately show ?thesis by blast
  next
    case False
    from select_valid_first_min [OF False] obtain pre m met post where
      m: "map_sum id fst (py_min (\<lambda>x. Inr (quantized_size_mb (snd x))) valid) = Inr m" and
      dec: "valid = pre @ (m, met) # post"
      by blast
    have "select_best_quantization evaluation_results s a = Inr m"
      using False m unfolding select_best_quantization_def Let_def valid_def by simp
    moreover have "(m, met) \<in> set valid" by (subst dec) simp
    then have "(m, met) \<in> set evaluation_results" by (simp add: valid_def)
    then have "m \<in> set (map fst evaluation_results)" by force
    ultimately show ?thesis by blast
  qed
qed

section \<open>The report is always built\<close>

lemma build_report_total:
  assumes "distinct (map fst evaluation_results)"
  shows "\<exists>report. build_report evaluation_results = Inr report \<and>
           quantization_methods_tested (summary report) = map fst evaluation_results \<and>
           detailed_results report =
             map (\<lambda>(method, metrics). (method, detail_of metrics)) evaluation_results \<and>
           recommendation (summary report) = None"
proof (cases evaluation_results)
  case Nil
  then show ?thesis by (simp add: build_report_def)
next
  case (Cons first others)
  then have ne: "map fst evaluation_results \<noteq> []" by simp
  obtain bs where bs:
    "py_min (\<lambda>k. map_sum id quantized_size_mb (dict_getitem evaluation_results k))
       (map fst evaluation_results) = Inr bs"
    using py_min_first_min [OF ne dict_lookup_keys [OF assms, of quantized_size_mb]] by blast
  obtain ba where ba:
    "py_max (\<lambda>k. map_sum id accuracy_retention (dict_getitem evaluation_results k))
       (map fst evaluation_results) = Inr ba"
    using py_max_total [OF ne dict_lookup_keys [OF assms, of accuracy_retention]] by blast
  have fold: "fold (\<lambda>(method, metrics) d. dict_setitem d method (detail_of metrics))
                evaluation_results [] =
              map (\<lambda>(method, metrics). (method, detail_of metrics)) evaluation_results"
    using fold_setitem_distinct [of "[]" evaluation_results detail_of] assms by simp
  obtain fm fr where first: "first = (fm, fr)" by (cases first)
  show ?thesis
    unfolding build_report_def Let_def
    using bs ba fold by (simp add: Cons first)
qed

lemma create_quantization_report_written:
  assumes "build_report evaluation_results = Inr report"
  shows "create_quantization_report env evaluation_results output_path =
           (case write_report env output_path report of
              Some e \<Rightarrow> Inl e
            | None \<Rightarrow> Inr report)"
  using assms by (simp add: create_quantization_report_def)

section \<open>Metrics against one baseline\<close>

lemma py_truediv_Inr: "py_truediv a b = Inr q \<Longrightarrow> b \<noteq> 0 \<and> q = a / b"
  by (auto simp: py_truediv_def split: if_splits)

lemma evaluate_loop_characterisation:
  fixes env :: "'p env" and texts :: "string list" and labels :: "int list"
    and osz oacc otime :: real
    and R :: "string \<times> TFLiteModelInfo \<Rightarrow> string \<times> QuantizationMetrics \<Rightarrow> bool"
  defines "R \<equiv> \<lambda>(m, info) (m', met).
      m' = m \<and> quantization_method met = m \<and>
      original_size_mb met = osz \<and> original_accuracy met = oacc \<and>
      original_inference_ms met = otime \<and>
      quantized_size_mb met = size_mb info \<and>
      (\<exists>bench fed.
         benchmark_tflite_model env (model_path info) (take 10 texts) default_num_runs
           = Inr (bench, fed) \<and>
         quantized_inference_ms met = avg_inference_time_ms bench) \<and>
      evaluate_tflite_accuracy env (model_path info) texts labels
        = Inr (quantized_accuracy met) \<and>
      quantized_size_mb met \<noteq> 0 \<and> oacc \<noteq> 0 \<and>
      size_reduction_ratio met = osz / quantized_size_mb met \<and>
      accuracy_retention met = quantized_accuracy met / oacc \<and>
      speedup_ratio met = np_truediv otime (quantized_inference_ms met)"
  assumes run: "evaluate_loop env texts labels osz oacc otime models acc = Inr results"
      and dist: "distinct (map fst acc @ map fst models)"
  shows "\<exists>new. results = acc @ new \<and> list_all2 R models new"
  using run dist
proof (induction models arbitrary: acc)
  case Nil
  then show ?case by simp
next
  case (Cons x models)
  obtain meth model_info where x: "x = (meth, model_info)" by (cases x)
  from Cons.prems(1) obtain bench fed qacc sr ret where
    bench: "benchmark_tflite_model env (model_path model_info) (take 10 texts) default_num_runs
              = Inr (bench, fed)" and
    qacc: "evaluate_tflite_accuracy env (model_path model_info) texts labels = Inr qacc" and
    sr: "py_truediv osz (size_mb model_info) = Inr sr" and
    ret: "py_truediv qacc oacc = Inr ret"
    by (auto simp: x split: sum.splits)
  define met where "met =
     \<lparr>original_size_mb = osz, quantized_size_mb = size_mb model_info,
      size_reduction_ratio = sr, original_accuracy = oacc, quantized_accuracy = qacc,
      accuracy_retention = ret, original_inference_ms = otime,
      quantized_inference_ms = avg_inference_time_ms bench,
      speedup_ratio = np_truediv otime (avg_inference_time_ms bench),
      quantization_method = meth\<rparr>"
  have new: "meth \<notin> fst ` set acc" using Cons.prems(2) x by auto
  have step: "evaluate_loop env texts labels osz oacc otime models (acc @ [(meth, met)])
                = Inr results"
    using Cons.prems(1) bench qacc sr ret
    by (simp add: x met_def dict_setitem_new [OF new])
  have Rmet: "R (meth, model_info) (meth, met)"
    using py_truediv_Inr [OF sr] py_truediv_Inr [OF ret] bench qacc
    by (simp add: R_def met_def)
  have dist': "distinct (map fst (acc @ [(meth, met)]) @ map fst models)"
    using Cons.prems(2) x by auto
  from Cons.IH [OF step dist'] obtain new' where
    res: "results = (acc @ [(meth, met)]) @ new'" and all: "list_all2 R models new'"
    by blast
  have "results = acc @ ((meth, met) # new')" using res by simp
  moreover have "list_all2 R (x # models) ((meth, met) # new')"
    using Rmet all by (simp add: x)
  ultimately show ?case by blast
qed


text \<open>
  The benchmark and the accuracy of one candidate in an environment that preprocesses
  and predicts like the example environment and whose every run takes \<open>c\<close>
  milliseconds, and the evaluation of a list of such candidates.
\<close>

lemma evaluate_tflite_accuracy_counts:
  assumes "read_file env path = Inr content"
      and "interpreter_details_of env content = Inr details"
      and "\<forall>(t, l) \<in> set (zip test_texts test_labels). predict_label env content t = Inr (pred t)"
  shows "evaluate_tflite_accuracy env path test_texts test_labels =
           py_truediv (real (length (filter (\<lambda>(t, l). int (pred t) = l)
                                       (zip test_texts test_labels))))
                      (real (length test_texts))"
  unfolding evaluate_tflite_accuracy_def
  by (simp add: assms(1,2) count_correct_total [OF assms(3)])

lemma example_like_benchmark:
  assumes rd: "read_file env path = Inr [1, 2]"
      and det: "interpreter_details_of env = interpreter_details_of example_env"
      and prep: "preprocess_data env = preprocess_data example_env"
      and inv: "interpreter_invoke env = interpreter_invoke example_env"
      and clk: "\<And>k. clock env path k = real k * c / 1000"
  shows "benchmark_tflite_model env path (take 10 example_texts) default_num_runs =
     Inr (\<lparr>avg_inference_time_ms = c, min_inference_time_ms = c, max_inference_time_ms = c,
           std_inference_time_ms = 0, total_benchmark_time_s = c / 10\<rparr>,
          replicate 100 [1])"
proof (rule benchmark_constant_runs [where content = "[1, 2]" and details = example_details
         and out = "[[1, 0]]"])
  show "read_file env path = Inr [1, 2]" by (rule rd)
  show "interpreter_details_of env [1, 2] = Inr example_details"
    by (simp add: det example_env_def)
  show "preprocess_data env
          [case take 10 example_texts of [] \<Rightarrow> ''Test message'' | t # rest \<Rightarrow> t] = Inr [1]"
    by (simp add: prep example_env_def example_texts_def)
  show "interpreter_invoke env [1, 2] [1] = Inr [[1, 0]]"
    by (simp add: inv example_env_def)
  show "clock env path k = real k * c / 1000" for k by (rule clk)
qed

lemma example_like_accuracy:
  assumes rd: "read_file env path = Inr [1, 2]"
      and det: "interpreter_details_of env = interpreter_details_of example_env"
      and prep: "preprocess_data env = preprocess_data example_env"
      and inv: "interpreter_invoke env = interpreter_invoke example_env"
  shows "evaluate_tflite_accuracy env path example_texts example_labels = Inr (1 / 3)"
proof -
  have "predict_label env content t = predict_label example_env content t" for content t
    unfolding predict_label_def prep inv ..
  then have pl: "predict_label env content t = Inr (example_prediction t)" for content t
    by (simp add: example_predict_label)
  have "evaluate_tflite_accuracy env path example_texts example_labels =
          py_truediv (real (length (filter (\<lambda>(t, l). int (example_prediction t) = l)
                                      (zip example_texts example_labels))))
                     (real (length example_texts))"
  proof (rule evaluate_tflite_accuracy_counts)
    show "read_file env path = Inr [1, 2]" by (rule rd)
    show "interpreter_details_of env [1, 2] = Inr example_details"
      by (simp add: det example_env_def)
    show "\<forall>(t, l) \<in> set (zip example_texts example_labels).
            predict_label env [1, 2] t = Inr (example_prediction t)"
      by (simp add: pl)
  qed
  then show ?thesis
    by (simp add: example_texts_def example_labels_def example_prediction_def py_truediv_def)
qed

lemma example_like_loop:
  fixes env :: "nat env" and osz otime c :: real
    and F :: "string \<times> TFLiteModelInfo \<Rightarrow> string \<times> QuantizationMetrics"
  defines "F \<equiv> \<lambda>(m, info).
      (m, \<lparr>original_size_mb = osz, quantized_size_mb = size_mb info,
           size_reduction_ratio = osz / size_mb info,
           original_accuracy = 1 / 2, quantized_accuracy = 1 / 3, accuracy_retention = 2 / 3,
           original_inference_ms = otime, quantized_inference_ms = c,
           speedup_ratio = np_truediv otime c, quantization_method = m\<rparr>)"
  assumes det: "interpreter_details_of env = interpreter_details_of example_env"
      and prep: "preprocess_data env = preprocess_data example_env"
      and inv: "interpreter_invoke env = interpreter_invoke example_env"
      and clk: "\<And>path k. clock env path k = real k * c / 1000"
      and rd: "\<forall>(m, info) \<in> set models.
                 read_file env (model_path info) = Inr [1, 2] \<and> size_mb info \<noteq> 0"
      and dist: "distinct (map fst acc @ map fst models)"
  shows "evaluate_loop env example_texts example_labels osz (1 / 2) otime models acc =
           Inr (acc @ map F models)"
  using rd dist
proof (induction models arbitrary: acc)
  case Nil
  then show ?case by simp
next
  case (Cons x models)
  obtain meth model_info where x: "x = (meth, model_info)" by (cases x)
  have fl: "read_file env (model_path model_info) = Inr [1, 2]"
    and nz: "size_mb model_info \<noteq> 0"
    using Cons.prems(1) x by simp_all
  have rest: "\<forall>(m, info) \<in> set models.
                read_file env (model_path info) = Inr [1, 2] \<and> size_mb info \<noteq> 0"
    using Cons.prems(1) by simp
  have new: "meth \<notin> fst ` set acc" using Cons.prems(2) x by auto
  have dist': "distinct (map fst (acc @ [F x]) @ map fst models)"
    using Cons.prems(2) x by (auto simp: F_def)
  have "evaluate_loop env example_texts example_labels osz (1 / 2) otime (x # models) acc =
        evaluate_loop env example_texts example_labels osz (1 / 2) otime models (acc @ [F x])"
    by (simp add: x example_like_benchmark [OF fl det prep inv clk]
        example_like_accuracy [OF fl det prep inv] py_truediv_def nz
        dict_setitem_new [OF new] F_def)
  then show ?case using Cons.IH [OF rest dist'] by simp
qed

lemma example_like_evaluation:
  fixes env :: "nat env"
  assumes det: "interpreter_details_of env = interpreter_details_of example_env"
      and prep: "preprocess_data env = preprocess_data example_env"
      and inv: "interpreter_invoke env = interpreter_invoke example_env"
      and clk: "\<And>path k. clock env path k = real k * c / 1000"
      and rd: "\<forall>(m, info) \<in> set models.
                 read_file env (model_path info) = Inr [1, 2] \<and> size_mb info \<noteq> 0"
      and dist: "distinct (map fst models)"
      and sz: "calculate_model_size env 0 = Inr osz"
      and base: "evaluate_model env 0 example_texts example_labels = Inr (1 / 2, otime)"
  shows "evaluate_quantized_models env models example_texts example_labels =
     Inr (map (\<lambda>(m, info).
            (m, \<lparr>original_size_mb = osz, quantized_size_mb = size_mb info,
                 size_reduction_ratio = osz / size_mb info,
                 original_accuracy = 1 / 2, quantized_accuracy = 1 / 3,
                 accuracy_retention = 2 / 3,
                 original_inference_ms = otime, quantized_inference_ms = c,
                 speedup_ratio = np_truediv otime c, quantization_method = m\<rparr>))
          models)"
proof -
  have d: "distinct (map fst ([] :: QuantizationMetrics dict) @ map fst models)"
    using dist by simp
  show ?thesis
    unfolding evaluate_quantized_models_def
    using example_like_loop [OF det prep inv clk rd d, of osz otime]
    by (simp add: sz base)
qed

lemma example_evaluation:
  "evaluate_quantized_models example_env example_models example_texts example_labels =
     Inr example_results"
proof -
  have "evaluate_quantized_models example_env example_models example_texts example_labels =
     Inr (map (\<lambda>(m, info).
            (m, \<lparr>original_size_mb = 30, quantized_size_mb = size_mb info,
                 size_reduction_ratio = 30 / size_mb info,
                 original_accuracy = 1 / 2, quantized_accuracy = 1 / 3,
                 accuracy_retention = 2 / 3,
                 original_inference_ms = 10, quantized_inference_ms = 1,
                 speedup_ratio = np_truediv 10 1, quantization_method = m\<rparr>))
          example_models)"
    by (rule example_like_evaluation)
       (simp_all add: example_env_def example_models_def example_info_def)
  then show ?thesis
    by (simp add: example_models_def example_info_def example_results_def example_metrics_def
        np_truediv_def)
qed



section \<open>The example pipeline, evaluated\<close>

lemma example_like_conversions:
  assumes "mkdir env ''models/quantized'' = None"
      and "tflite_convert env = tflite_convert example_env"
      and "write_file env = write_file example_env"
      and "interpreter_details_of env = interpreter_details_of example_env"
      and "preprocess_data env = preprocess_data example_env"
      and "join_path env = join_path example_env"
  shows "quantize_all_methods env ''models/quantized'' texts = Inr example_models"
proof -
  have dyn: "quantize_dynamic env p = Inr (example_info p ''dynamic'' 4 (1 / 2))" for p
    by (simp add: quantize_dynamic_def assms(2-4) example_env_def dynamic_config_def
        save_and_describe_def get_tflite_model_info_def example_info_def example_details_def)
  have f16: "quantize_float16 env p = Inr (example_info p ''float16'' 6 (1 / 4))" for p
    by (simp add: quantize_float16_def assms(2-4) example_env_def float16_config_def
        save_and_describe_def get_tflite_model_info_def example_info_def example_details_def)
  have ds: "create_representative_dataset env texts 1 =
            Inr (representative_data_gen (map length texts) (length texts) 1)"
    by (simp add: create_representative_dataset_def assms(5) example_env_def)
  have i8: "fst (quantize_int8 env p texts True) = Inr (example_info p ''int8_fallback'' 2 1)"
    for p
    by (simp add: quantize_int8_with_fallback ds assms(2-4) example_env_def int8_config_def
        save_and_describe_def get_tflite_model_info_def example_info_def example_details_def)
  have paths: "join_path env ''models/quantized'' name = ''models/quantized/'' @ name" for name
    by (simp add: assms(6) example_env_def)
  show ?thesis
    by (simp add: quantize_all_methods_results [OF assms(1)] dyn f16 i8 paths
        example_models_def)
qed

lemma example_conversions:
  "quantize_all_methods example_env ''models/quantized'' texts = Inr example_models"
  by (rule example_like_conversions) (simp_all add: example_env_def)

lemma broken_interpreter_conversions:
  "quantize_all_methods broken_interpreter_env ''models/quantized'' texts = Inr example_models"
  by (rule example_like_conversions)
     (simp_all add: broken_interpreter_env_def example_env_def)

lemma unreadable_dynamic_conversions:
  "quantize_all_methods unreadable_dynamic_env ''models/quantized'' texts = Inr example_models"
  by (rule example_like_conversions)
     (simp_all add: unreadable_dynamic_env_def example_env_def)

lemma no_float16_conversions:
  "quantize_all_methods no_float16_env ''models/quantized'' [''aa''] =
     Inr converted_without_float16"
proof -
  have mk: "mkdir no_float16_env ''models/quantized'' = None"
    by (simp add: no_float16_env_def example_env_def)
  have dyn: "quantize_dynamic no_float16_env p = Inr (example_info p ''dynamic'' 4 (1 / 2))"
    for p
    by (simp add: quantize_dynamic_def no_float16_env_def example_env_def dynamic_config_def
        save_and_describe_def get_tflite_model_info_def example_info_def example_details_def)
  have f16: "quantize_float16 no_float16_env p = Inl ConverterError" for p
    by (simp add: quantize_float16_def no_float16_env_def example_env_def float16_config_def)
  have i8: "fst (quantize_int8 no_float16_env p [''aa''] True) =
            Inr (example_info p ''int8_fallback'' 2 1)" for p
    by (simp add: quantize_int8_with_fallback create_representative_dataset_def
        no_float16_env_def example_env_def int8_config_def
        save_and_describe_def get_tflite_model_info_def example_info_def example_details_def)
  have paths: "join_path no_float16_env ''models/quantized'' name = ''models/quantized/'' @ name"
    for name
    by (simp add: no_float16_env_def example_env_def)
  show ?thesis
    by (simp add: quantize_all_methods_results [OF mk] dyn f16 i8 paths
        converted_without_float16_def)
qed

lemma no_float16_evaluation:
  "evaluate_quantized_models no_float16_env converted_without_float16
     example_texts example_labels = Inr results_without_float16"
proof -
  have "evaluate_quantized_models no_float16_env converted_without_float16
          example_texts example_labels =
     Inr (map (\<lambda>(m, info).
            (m, \<lparr>original_size_mb = 30, quantized_size_mb = size_mb info,
                 size_reduction_ratio = 30 / size_mb info,
                 original_accuracy = 1 / 2, quantized_accuracy = 1 / 3,
                 accuracy_retention = 2 / 3,
                 original_inference_ms = 10, quantized_inference_ms = 1,
                 speedup_ratio = np_truediv 10 1, quantization_method = m\<rparr>))
          converted_without_float16)"
    by (rule example_like_evaluation)
       (simp_all add: no_float16_env_def example_env_def converted_without_float16_def
          example_info_def)
  then show ?thesis
    by (simp add: converted_without_float16_def example_info_def results_without_float16_def
        example_metrics_def np_truediv_def)
qed

lemma broken_interpreter_benchmark:
  "benchmark_tflite_model broken_interpreter_env path (take 10 example_texts) default_num_runs
     = Inl InterpreterError"
  by (simp add: broken_interpreter_env_def example_env_def example_texts_def
      benchmark_tflite_model_def default_num_runs_def numeral_eq_Suc)

lemma broken_interpreter_evaluation:
  "evaluate_quantized_models broken_interpreter_env example_models example_texts example_labels
     = Inl InterpreterError"
proof -
  have base: "calculate_model_size broken_interpreter_env 0 = Inr 30"
    "evaluate_model broken_interpreter_env 0 example_texts example_labels = Inr (1 / 2, 10)"
    by (simp_all add: broken_interpreter_env_def example_env_def)
  show ?thesis
    by (simp add: evaluate_quantized_models_def base example_models_def
        broken_interpreter_benchmark)
qed

lemma unreadable_dynamic_evaluation:
  "evaluate_quantized_models unreadable_dynamic_env example_models example_texts example_labels
     = Inl OSError"
  by (simp add: evaluate_quantized_models_def unreadable_dynamic_env_def example_env_def
      example_models_def example_info_def benchmark_tflite_model_def)

lemma unreadable_dynamic_siblings:
  "evaluate_quantized_models unreadable_dynamic_env (drop 1 example_models)
     example_texts example_labels = Inr (drop 1 example_results)"
proof -
  have "evaluate_quantized_models unreadable_dynamic_env (drop 1 example_models)
          example_texts example_labels =
     Inr (map (\<lambda>(m, info).
            (m, \<lparr>original_size_mb = 30, quantized_size_mb = size_mb info,
                 size_reduction_ratio = 30 / size_mb info,
                 original_accuracy = 1 / 2, quantized_accuracy = 1 / 3,
                 accuracy_retention = 2 / 3,
                 original_inference_ms = 10, quantized_inference_ms = 1,
                 speedup_ratio = np_truediv 10 1, quantization_method = m\<rparr>))
          (drop 1 example_models))"
    by (rule example_like_evaluation)
       (simp_all add: unreadable_dynamic_env_def example_env_def example_models_def
          example_info_def)
  then show ?thesis
    by (simp add: example_models_def example_info_def example_results_def example_metrics_def
        np_truediv_def)
qed

lemma same_keys:
  "list_all2 (\<lambda>x y. fst y = fst x) xs ys \<Longrightarrow> map fst ys = map fst xs"
  by (induction rule: list_all2_induct) simp_all

lemma evaluate_quantized_models_keys:
  assumes run: "evaluate_quantized_models env quantized_models texts labels = Inr results"
      and dist: "distinct (map fst quantized_models)"
  shows "map fst results = map fst quantized_models"
proof -
  from run obtain osz oacc otime where
    loop: "evaluate_loop env texts labels osz oacc otime quantized_models [] = Inr results"
    by (auto simp: evaluate_quantized_models_def split: sum.splits)
  have d: "distinct (map fst ([] :: QuantizationMetrics dict) @ map fst quantized_models)"
    using dist by simp
  from evaluate_loop_characterisation [OF loop d]
  have "list_all2 (\<lambda>x y. fst y = fst x) quantized_models results"
    by (auto elim!: list_all2_mono)
  then show ?thesis by (rule same_keys)
qed

lemma evaluate_loop_needs_all:
  assumes "evaluate_loop env texts labels osz oacc otime models acc = Inr out"
  shows "\<forall>(m, info) \<in> set models.
           (\<exists>b. benchmark_tflite_model env (model_path info) (take 10 texts) default_num_runs
                   = Inr b) \<and>
           (\<exists>q. evaluate_tflite_accuracy env (model_path info) texts labels = Inr q)"
  using assms
proof (induction models arbitrary: acc)
  case Nil
  then show ?case by simp
next
  case (Cons x models)
  obtain meth model_info where x: "x = (meth, model_info)" by (cases x)
  from Cons.prems obtain b q acc' where
    b: "benchmark_tflite_model env (model_path model_info) (take 10 texts) default_num_runs
          = Inr b" and
    q: "evaluate_tflite_accuracy env (model_path model_info) texts labels = Inr q" and
    rest: "evaluate_loop env texts labels osz oacc otime models acc' = Inr out"
    by (auto simp: x split: sum.splits)
  from Cons.IH [OF rest] b q show ?case by (simp add: x)
qed

lemma evaluate_quantized_models_needs_all:
  assumes "evaluate_quantized_models env quantized_models texts labels = Inr out"
  shows "\<forall>(m, info) \<in> set quantized_models.
           (\<exists>b. benchmark_tflite_model env (model_path info) (take 10 texts) default_num_runs
                   = Inr b) \<and>
           (\<exists>q. evaluate_tflite_accuracy env (model_path info) texts labels = Inr q)"
proof -
  from assms obtain osz oacc otime where
    "evaluate_loop env texts labels osz oacc otime quantized_models [] = Inr out"
    by (auto simp: evaluate_quantized_models_def split: sum.splits)
  then show ?thesis by (rule evaluate_loop_needs_all)
qed

lemma quantize_model_evaluation_failure:
  assumes "model_trained env"
      and "quantize_all_methods env ''models/quantized'' (calibration_slice train_texts) =
             Inr quantized_models"
      and "evaluate_quantized_models env quantized_models
             (take 100 test_texts) (take 100 test_labels) = Inl e"
  shows "quantize_model env train_texts test_texts test_labels target_size_mb = Inl e"
  using assms by (simp add: quantize_model_def Let_def)

text \<open>
  The run of \<^verbatim>\<open>quantize_model\<close> when at least one strategy has been converted, the
  evaluation returns, the report can be written and the plot can be drawn.
\<close>

lemma quantize_model_returns:
  assumes trained: "model_trained env"
      and conv: "quantize_all_methods env ''models/quantized'' (calibration_slice train_texts) =
                   Inr quantized_models"
      and ne: "quantized_models \<noteq> []"
      and ev: "evaluate_quantized_models env quantized_models
                 (take 100 test_texts) (take 100 test_labels) = Inr evaluation_results"
      and wr: "\<forall>report. build_report evaluation_results = Inr report \<longrightarrow>
                 write_report env report_path report = None"
      and plot: "plot_figure env evaluation_results plot_path = None"
  shows "map fst evaluation_results = map fst quantized_models \<and>
         (\<exists>best report.
            quantize_model env train_texts test_texts test_labels target_size_mb =
              Inr \<lparr>res_quantized_models = quantized_models,
                   res_evaluation_results = evaluation_results,
                   res_best_method = best, res_report = report\<rparr> \<and>
            best \<in> set (map fst quantized_models) \<and>
            quantization_methods_tested (summary report) = map fst quantized_models \<and>
            map fst (detailed_results report) = map fst quantized_models)"
proof -
  have dist: "distinct (map fst quantized_models)"
    using conv by (rule quantize_all_methods_distinct)
  have keys: "map fst evaluation_results = map fst quantized_models"
    using ev dist by (rule evaluate_quantized_models_keys)
  have dist': "distinct (map fst evaluation_results)" using dist keys by simp
  have ne': "evaluation_results \<noteq> []" using ne keys by auto
  from select_best_quantization_total [OF ne' dist', of target_size_mb "9 / 10"]
  obtain best where
    sel: "select_best_quantization evaluation_results target_size_mb (9 / 10) = Inr best" and
    mem: "best \<in> set (map fst evaluation_results)"
    by auto
  from build_report_total [OF dist'] obtain report where
    built: "build_report evaluation_results = Inr report" and
    tested: "quantization_methods_tested (summary report) = map fst evaluation_results" and
    details: "detailed_results report =
                map (\<lambda>(method, metrics). (method, detail_of metrics)) evaluation_results"
    by blast
  have written: "create_quantization_report env evaluation_results report_path = Inr report"
    using wr built by (simp add: create_quantization_report_def)
  have drawn: "plot_quantization_comparison env evaluation_results plot_path = None"
    using plot by (simp add: plot_quantization_comparison_def)
  have run: "quantize_model env train_texts test_texts test_labels target_size_mb =
              Inr \<lparr>res_quantized_models = quantized_models,
                   res_evaluation_results = evaluation_results,
                   res_best_method = best, res_report = report\<rparr>"
    by (simp add: quantize_model_def Let_def trained conv ev sel written drawn)
  have dkeys: "map fst (detailed_results report) = map fst quantized_models"
    unfolding details keys [symmetric] by (simp add: case_prod_beta comp_def)
  show ?thesis
    using keys run mem tested dkeys by (intro conjI exI [of _ best] exI [of _ report]) simp_all
qed

lemma example_pipeline:
  "\<exists>best report. quantize_model example_env short_corpus example_texts example_labels 20 =
     Inr \<lparr>res_quantized_models = example_models, res_evaluation_results = example_results,
          res_best_method = best, res_report = report\<rparr>"
proof -
  have texts: "take 100 example_texts = example_texts" "take 100 example_labels = example_labels"
    by (simp_all add: example_texts_def example_labels_def)
  have "map fst example_results = map fst example_models \<and>
         (\<exists>best report.
            quantize_model example_env short_corpus example_texts example_labels 20 =
              Inr \<lparr>res_quantized_models = example_models,
                   res_evaluation_results = example_results,
                   res_best_method = best, res_report = report\<rparr> \<and>
            best \<in> set (map fst example_models) \<and>
            quantization_methods_tested (summary report) = map fst example_models \<and>
            map fst (detailed_results report) = map fst example_models)"
  proof (rule quantize_model_returns)
    show "model_trained example_env" by (simp add: example_env_def)
    show "quantize_all_methods example_env ''models/quantized'' (calibration_slice short_corpus)
            = Inr example_models"
      by (rule example_conversions)
    show "example_models \<noteq> []" by (simp add: example_models_def)
    show "evaluate_quantized_models example_env example_models
            (take 100 example_texts) (take 100 example_labels) = Inr example_results"
      by (simp only: texts example_evaluation)
    show "\<forall>report. build_report example_results = Inr report \<longrightarrow>
            write_report example_env report_path report = None"
      by (simp add: example_env_def)
    show "plot_figure example_env example_results plot_path = None"
      by (simp add: example_env_def)
  qed
  then show ?thesis by blast
qed

text \<open>When the report file cannot be written, the run fails although every strategy was
  converted and evaluated.\<close>

lemma read_only_pipeline:
  "quantize_model read_only_env short_corpus example_texts example_labels 20 = Inl OSError"
proof -
  have texts: "take 100 example_texts = example_texts" "take 100 example_labels = example_labels"
    by (simp_all add: example_texts_def example_labels_def)
  have trained: "model_trained read_only_env"
    by (simp add: read_only_env_def example_env_def)
  have conv: "quantize_all_methods read_only_env ''models/quantized''
                (calibration_slice short_corpus) = Inr example_models"
    by (rule example_like_conversions) (simp_all add: read_only_env_def example_env_def)
  have "evaluate_quantized_models read_only_env example_models example_texts example_labels =
     Inr (map (\<lambda>(m, info).
            (m, \<lparr>original_size_mb = 30, quantized_size_mb = size_mb info,
                 size_reduction_ratio = 30 / size_mb info,
                 original_accuracy = 1 / 2, quantized_accuracy = 1 / 3,
                 accuracy_retention = 2 / 3,
                 original_inference_ms = 10, quantized_inference_ms = 1,
                 speedup_ratio = np_truediv 10 1, quantization_method = m\<rparr>))
          example_models)"
    by (rule example_like_evaluation)
       (simp_all add: read_only_env_def example_env_def example_models_def example_info_def)
  then have ev: "evaluate_quantized_models read_only_env example_models example_texts
                   example_labels = Inr example_results"
    by (simp add: example_models_def example_info_def example_results_def example_metrics_def
        np_truediv_def)
  have sel: "select_best_quantization example_results 20 (9 / 10) = Inr ''int8''"
    by (simp add: select_best_quantization_def example_results_def example_metrics_def
        py_min_def dict_getitem_def)
  have "distinct (map fst example_results)" by (simp add: example_results_def)
  from build_report_total [OF this] obtain report where
    "build_report example_results = Inr report" by blast
  then have "create_quantization_report read_only_env example_results report_path = Inl OSError"
    by (simp add: create_quantization_report_def read_only_env_def)
  then show ?thesis
    by (simp add: quantize_model_def Let_def trained conv texts ev sel)
qed

section \<open>Infeasible constraints\<close>

text \<open>
  \<^bold>\<open>Claim C2\<close> says that a selection made when no candidate meets both constraints
  is marked \<^verbatim>\<open>constraints_satisfied = false\<close> for callers and for the report's summary.
  The code has no such flag: \<^verbatim>\<open>select_best_quantization\<close> returns the method name
  only, and \<^verbatim>\<open>create_quantization_report\<close> receives neither the thresholds nor the
  selection. For the single candidate below the size threshold 2 is infeasible and the
  size threshold 20 is feasible, yet both selections return the same value, and the
  \<^verbatim>\<open>recommendation\<close> of the report is \<^verbatim>\<open>None\<close>.
\<close>

theorem infeasible_selection_is_unmarked:
  "filter (\<lambda>(method, metrics). quantized_size_mb metrics \<le> 2 \<and> accuracy_retention metrics \<ge> 9 / 10)
     single_candidate = [] \<and>
   filter (\<lambda>(method, metrics). quantized_size_mb metrics \<le> 20 \<and> accuracy_retention metrics \<ge> 9 / 10)
     single_candidate \<noteq> [] \<and>
   select_best_quantization single_candidate 2 (9 / 10) = Inr ''int8'' \<and>
   select_best_quantization single_candidate 20 (9 / 10) = Inr ''int8'' \<and>
   map_sum id (\<lambda>report. recommendation (summary report))
     (create_quantization_report example_env single_candidate report_path) = Inr None"
  by (simp add: single_candidate_def candidate_def select_best_quantization_def py_min_def
      py_max_def dict_getitem_def create_quantization_report_def build_report_def
      example_env_def)

text \<open>
  \<^bold>\<open>Claim C2, amended.\<close> When at least one candidate exists and none satisfies both
  constraints, the selection raises nothing and returns the name of a candidate of
  smallest \<open>quantized_size_mb\<close>. The report is built as well, and its summary has no
  recommendation; \<^verbatim>\<open>create_quantization_report\<close> returns this report once it has
  written it, and fails only with the error of the write.
\<close>

theorem select_infeasible_returns_smallest:
  assumes "evaluation_results \<noteq> []" and "distinct (map fst evaluation_results)"
      and "\<forall>(m, met) \<in> set evaluation_results.
             \<not> (quantized_size_mb met \<le> s \<and> accuracy_retention met \<ge> a)"
  shows "\<exists>m met report.
      select_best_quantization evaluation_results s a = Inr m \<and>
      (m, met) \<in> set evaluation_results \<and>
      (\<forall>(m', met') \<in> set evaluation_results. quantized_size_mb met \<le> quantized_size_mb met') \<and>
      build_report evaluation_results = Inr report \<and>
      recommendation (summary report) = None \<and>
      create_quantization_report env evaluation_results output_path =
        (case write_report env output_path report of
           Some e \<Rightarrow> Inl e
         | None \<Rightarrow> Inr report)"
proof -
  have none: "filter (\<lambda>(method, metrics).
                        quantized_size_mb metrics \<le> s \<and> accuracy_retention metrics \<ge> a)
                evaluation_results = []"
    using assms(3) by (auto simp: filter_empty_conv)
  from select_fallback_first_min [OF assms(1,2)] obtain pre m met post where
    m: "py_min (\<lambda>m. map_sum id quantized_size_mb (dict_getitem evaluation_results m))
          (map fst evaluation_results) = Inr m" and
    dec: "evaluation_results = pre @ (m, met) # post" and
    lt: "\<forall>(m', met') \<in> set pre. quantized_size_mb met < quantized_size_mb met'" and
    le: "\<forall>(m', met') \<in> set post. quantized_size_mb met \<le> quantized_size_mb met'"
    by blast
  have sel: "select_best_quantization evaluation_results s a = Inr m"
    using none m by (simp add: select_best_quantization_def)
  have mem: "(m, met) \<in> set evaluation_results" using dec by simp
  have smallest: "\<forall>(m', met') \<in> set evaluation_results.
                    quantized_size_mb met \<le> quantized_size_mb met'"
  proof -
    have "set evaluation_results = set pre \<union> {(m, met)} \<union> set post"
      by (subst dec) auto
    then show ?thesis using lt le by fastforce
  qed
  from build_report_total [OF assms(2)] obtain report where
    built: "build_report evaluation_results = Inr report" and
    rec: "recommendation (summary report) = None"
    by blast
  note written = create_quantization_report_written [OF built, of env output_path]
  from sel mem smallest built rec written show ?thesis by blast
qed

theorem select_infeasible_returns_smallest_witness:
  "scenario_candidates \<noteq> [] \<and> distinct (map fst scenario_candidates) \<and>
   filter (\<lambda>(m, met). quantized_size_mb met \<le> 5 \<and> accuracy_retention met \<ge> 9 / 10)
     scenario_candidates = [] \<and>
   select_best_quantization scenario_candidates 5 (9 / 10) = Inr ''int8'' \<and>
   write_report example_env report_path = (\<lambda>report. None) \<and>
   (\<exists>m met report.
      select_best_quantization scenario_candidates 5 (9 / 10) = Inr m \<and>
      (m, met) \<in> set scenario_candidates \<and>
      (\<forall>(m', met') \<in> set scenario_candidates. quantized_size_mb met \<le> quantized_size_mb met') \<and>
      build_report scenario_candidates = Inr report \<and>
      recommendation (summary report) = None \<and>
      create_quantization_report example_env scenario_candidates report_path = Inr report)"
proof -
  have ne: "scenario_candidates \<noteq> []" by (simp add: scenario_candidates_def)
  have d: "distinct (map fst scenario_candidates)" by (simp add: scenario_candidates_def)
  have none: "\<forall>(m, met) \<in> set scenario_candidates.
                \<not> (quantized_size_mb met \<le> 5 \<and> accuracy_retention met \<ge> 9 / 10)"
    by (simp add: scenario_candidates_def candidate_def)
  have empty: "filter (\<lambda>(m, met). quantized_size_mb met \<le> 5 \<and> accuracy_retention met \<ge> 9 / 10)
                 scenario_candidates = []"
    by (simp add: scenario_candidates_def candidate_def)
  have b: "select_best_quantization scenario_candidates 5 (9 / 10) = Inr ''int8''"
    by (simp add: select_best_quantization_def scenario_candidates_def candidate_def
        py_min_def dict_getitem_def)
  have w: "write_report example_env report_path = (\<lambda>report. None)"
    by (simp add: example_env_def)
  have "\<exists>m met report.
      select_best_quantization scenario_candidates 5 (9 / 10) = Inr m \<and>
      (m, met) \<in> set scenario_candidates \<and>
      (\<forall>(m', met') \<in> set scenario_candidates. quantized_size_mb met \<le> quantized_size_mb met') \<and>
      build_report scenario_candidates = Inr report \<and>
      recommendation (summary report) = None \<and>
      create_quantization_report example_env scenario_candidates report_path = Inr report"
    using select_infeasible_returns_smallest [OF ne d none, of example_env report_path]
    by (simp add: w)
  then show ?thesis using ne d empty b w by blast
qed

section \<open>Calibration sampling\<close>

text \<open>
  \<^bold>\<open>Claim C4\<close> says that asking for more calibration texts than the corpus holds
  fails, so that with 500 asked of a corpus of 400 the calibration-requiring strategy is
  omitted. The code takes the slice \<^verbatim>\<open>[:500]\<close>, which cannot fail: of the corpus of
  400 texts it returns all 400, and the INT8 strategy is converted like the others.
\<close>

theorem short_corpus_is_not_rejected:
  "length short_corpus = 400 \<and>
   calibration_slice short_corpus = short_corpus \<and>
   quantize_all_methods example_env ''models/quantized'' (calibration_slice short_corpus) =
     Inr example_models \<and>
   map fst example_models = [''dynamic'', ''float16'', ''int8'']"
  using example_conversions [of "calibration_slice short_corpus"]
  by (simp add: short_corpus_def calibration_slice_def example_models_def)

lemma single_row_batches:
  "map (\<lambda>k. take (min (k + 1) (length rows) - k) (drop k rows)) [0..<length rows] =
   map (\<lambda>r. [r]) rows"
proof (rule nth_equalityI)
  show "length (map (\<lambda>k. take (min (k + 1) (length rows) - k) (drop k rows)) [0..<length rows])
          = length (map (\<lambda>r. [r]) rows)"
    by simp
next
  fix i
  assume "i < length (map (\<lambda>k. take (min (k + 1) (length rows) - k) (drop k rows))
                        [0..<length rows])"
  then have i: "i < length rows" by simp
  then have "min (i + 1) (length rows) - i = 1" by simp
  moreover have "take 1 (drop i rows) = [rows ! i]"
    using i by (simp add: take_Suc_conv_app_nth)
  ultimately show "map (\<lambda>k. take (min (k + 1) (length rows) - k) (drop k rows))
                     [0..<length rows] ! i = map (\<lambda>r. [r]) rows ! i"
    using i by simp
qed

text \<open>
  \<^bold>\<open>Claim C4, amended.\<close> Calibration sampling never fails. It returns the
  ordering-preserving prefix of the corpus of length \<open>min 500 (length corpus)\<close>: exactly
  500 texts when the corpus has that many, the whole corpus otherwise. When the
  classifier preprocesses the sample to one row per text, the representative dataset
  handed to the converter yields one single-row batch per sampled text, in order.
\<close>

theorem calibration_slice_is_prefix:
  "(\<exists>rest. train_texts = calibration_slice train_texts @ rest) \<and>
   length (calibration_slice train_texts) = min 500 (length train_texts) \<and>
   (preprocess_data env (calibration_slice train_texts) = Inr rows \<and>
    length rows = length (calibration_slice train_texts) \<longrightarrow>
      create_representative_dataset env (calibration_slice train_texts) 1 =
        Inr (Inr (map (\<lambda>r. [r]) rows)))"
proof (intro conjI impI)
  have "train_texts = calibration_slice train_texts @ drop 500 train_texts"
    by (simp add: calibration_slice_def)
  then show "\<exists>rest. train_texts = calibration_slice train_texts @ rest" ..
next
  show "length (calibration_slice train_texts) = min 500 (length train_texts)"
    by (simp add: calibration_slice_def)
next
  assume h: "preprocess_data env (calibration_slice train_texts) = Inr rows \<and>
             length rows = length (calibration_slice train_texts)"
  then have "representative_data_gen rows (length (calibration_slice train_texts)) 1 =
             Inr (map (\<lambda>r. [r]) rows)"
    using single_row_batches [of rows] by (simp add: representative_data_gen_def Let_def)
  then show "create_representative_dataset env (calibration_slice train_texts) 1 =
             Inr (Inr (map (\<lambda>r. [r]) rows))"
    using h by (simp add: create_representative_dataset_def)
qed

theorem calibration_slice_is_prefix_witness:
  "preprocess_data example_env (calibration_slice [''aa'', ''bbb'']) = Inr [2, 3] \<and>
   length [2 :: nat, 3] = length (calibration_slice [''aa'', ''bbb'']) \<and>
   (\<exists>rest. [''aa'', ''bbb''] = calibration_slice [''aa'', ''bbb''] @ rest) \<and>
   length (calibration_slice [''aa'', ''bbb'']) = min 500 (length [''aa'', ''bbb'']) \<and>
   create_representative_dataset example_env (calibration_slice [''aa'', ''bbb'']) 1 =
     Inr (Inr [[2], [3]])"
proof -
  have p: "preprocess_data example_env (calibration_slice [''aa'', ''bbb'']) = Inr [2, 3]"
    by (simp add: example_env_def calibration_slice_def)
  have l: "length [2 :: nat, 3] = length (calibration_slice [''aa'', ''bbb''])"
    by (simp add: calibration_slice_def)
  from calibration_slice_is_prefix [of "[''aa'', ''bbb'']" example_env "[2, 3]"]
  show ?thesis using p l by simp
qed

section \<open>Failures that reach the caller\<close>

lemma broken_interpreter_pipeline:
  "quantize_model broken_interpreter_env short_corpus example_texts example_labels 20 =
     Inl InterpreterError"
proof -
  have texts: "take 100 example_texts = example_texts" "take 100 example_labels = example_labels"
    by (simp_all add: example_texts_def example_labels_def)
  have trained: "model_trained broken_interpreter_env"
    by (simp add: broken_interpreter_env_def example_env_def)
  show ?thesis
    by (rule quantize_model_evaluation_failure [OF trained broken_interpreter_conversions])
       (simp only: texts broken_interpreter_evaluation)
qed

text \<open>
  \<^bold>\<open>Claim C5\<close> says that the failure on zero candidates is the only failure of the
  pipeline that reaches the caller. In the code the loop of
  \<^verbatim>\<open>evaluate_quantized_models\<close> has no \<^verbatim>\<open>try\<close>: with an interpreter that fails, all
  three strategies convert, there are three candidates, and the pipeline still fails,
  with the interpreter's error.
\<close>

theorem evaluation_failure_reaches_caller:
  "quantize_all_methods broken_interpreter_env ''models/quantized''
     (calibration_slice short_corpus) = Inr example_models \<and>
   length example_models = 3 \<and>
   quantize_model broken_interpreter_env short_corpus example_texts example_labels 20 =
     Inl InterpreterError"
proof -
  have "length example_models = 3" by (simp add: example_models_def)
  then show ?thesis
    using broken_interpreter_conversions [of "calibration_slice short_corpus"]
      broken_interpreter_pipeline
    by simp
qed

text \<open>
  \<^bold>\<open>Claim C5, amended.\<close> With zero candidates the selection fails: Python's
  \<^verbatim>\<open>min\<close> raises \<^verbatim>\<open>ValueError\<close> on the empty dict, and when every conversion has
  failed and the baseline has been measured, that error is what the caller of the
  pipeline gets. It is not the only failure that reaches the caller: an error of
  \<^verbatim>\<open>evaluate_quantized_models\<close> (of the baseline, or of the benchmark or the accuracy
  evaluation of any candidate) reaches the caller too.
\<close>

theorem no_candidate_is_a_value_error:
  "select_best_quantization [] s a = Inl ValueError \<and>
   (model_trained env \<and>
    quantize_all_methods env ''models/quantized'' (calibration_slice train_texts) = Inr [] \<and>
    calculate_model_size env 0 = Inr osz \<and>
    evaluate_model env 0 (take 100 test_texts) (take 100 test_labels) = Inr baseline \<longrightarrow>
      quantize_model env train_texts test_texts test_labels target_size_mb = Inl ValueError) \<and>
   (model_trained env \<and>
    quantize_all_methods env ''models/quantized'' (calibration_slice train_texts) =
      Inr quantized_models \<and>
    evaluate_quantized_models env quantized_models (take 100 test_texts) (take 100 test_labels)
      = Inl e \<longrightarrow>
      quantize_model env train_texts test_texts test_labels target_size_mb = Inl e)"
proof (intro conjI impI)
  show sel: "select_best_quantization [] s a = Inl ValueError" for s a
    by (simp add: select_best_quantization_def py_min_def)
  assume "model_trained env \<and>
    quantize_all_methods env ''models/quantized'' (calibration_slice train_texts) = Inr [] \<and>
    calculate_model_size env 0 = Inr osz \<and>
    evaluate_model env 0 (take 100 test_texts) (take 100 test_labels) = Inr baseline"
  then show "quantize_model env train_texts test_texts test_labels target_size_mb
               = Inl ValueError"
    by (cases baseline)
       (simp add: quantize_model_def Let_def evaluate_quantized_models_def sel)
next
  assume "model_trained env \<and>
    quantize_all_methods env ''models/quantized'' (calibration_slice train_texts) =
      Inr quantized_models \<and>
    evaluate_quantized_models env quantized_models (take 100 test_texts) (take 100 test_labels)
      = Inl e"
  then show "quantize_model env train_texts test_texts test_labels target_size_mb = Inl e"
    by (simp add: quantize_model_def Let_def)
qed

theorem no_candidate_is_a_value_error_witness:
  "model_trained no_conversion_env \<and>
   quantize_all_methods no_conversion_env ''models/quantized'' (calibration_slice [''aa''])
     = Inr [] \<and>
   calculate_model_size no_conversion_env 0 = Inr 30 \<and>
   evaluate_model no_conversion_env 0 (take 100 example_texts) (take 100 example_labels)
     = Inr (1 / 2, 10) \<and>
   quantize_model no_conversion_env [''aa''] example_texts example_labels 20 = Inl ValueError \<and>
   model_trained no_baseline_env \<and>
   quantize_all_methods no_baseline_env ''models/quantized'' (calibration_slice [''aa''])
     = Inr example_models \<and>
   evaluate_quantized_models no_baseline_env example_models
     (take 100 example_texts) (take 100 example_labels) = Inl OSError \<and>
   quantize_model no_baseline_env [''aa''] example_texts example_labels 20 = Inl OSError"
proof -
  have t1: "model_trained no_conversion_env"
    by (simp add: no_conversion_env_def example_env_def)
  have c1: "quantize_all_methods no_conversion_env ''models/quantized''
              (calibration_slice [''aa'']) = Inr []"
    by (simp add: quantize_all_methods_def quantize_dynamic_def quantize_float16_def
        quantize_int8_with_fallback create_representative_dataset_def
        no_conversion_env_def example_env_def Let_def)
  have s1: "calculate_model_size no_conversion_env 0 = Inr 30"
    by (simp add: no_conversion_env_def example_env_def)
  have b1: "evaluate_model no_conversion_env 0 (take 100 example_texts) (take 100 example_labels)
              = Inr (1 / 2, 10)"
    by (simp add: no_conversion_env_def example_env_def)
  have t2: "model_trained no_baseline_env"
    by (simp add: no_baseline_env_def example_env_def)
  have c2: "quantize_all_methods no_baseline_env ''models/quantized''
              (calibration_slice [''aa'']) = Inr example_models"
    by (rule example_like_conversions) (simp_all add: no_baseline_env_def example_env_def)
  have e2: "evaluate_quantized_models no_baseline_env example_models
              (take 100 example_texts) (take 100 example_labels) = Inl OSError"
    by (simp add: evaluate_quantized_models_def no_baseline_env_def)
  have r1: "quantize_model no_conversion_env [''aa''] example_texts example_labels 20
              = Inl ValueError"
    using no_candidate_is_a_value_error
      [of 0 0 no_conversion_env "[''aa'']" 30 example_texts example_labels "(1 / 2, 10)" 20]
      t1 c1 s1 b1
    by blast
  have r2: "quantize_model no_baseline_env [''aa''] example_texts example_labels 20
              = Inl OSError"
    using no_candidate_is_a_value_error
      [of 0 0 no_baseline_env "[''aa'']" 30 example_texts example_labels "(1 / 2, 10)" 20
          example_models OSError]
      t2 c2 e2
    by blast
  show ?thesis using t1 c1 s1 b1 r1 t2 c2 e2 r2 by simp
qed

section \<open>Isolation of failures\<close>

text \<open>
  \<^bold>\<open>Claim C7\<close> says that a conversion, benchmarking or evaluation failure of one
  strategy never aborts its siblings or the run. That holds for conversion only. When
  the file of the \<^verbatim>\<open>dynamic\<close> model cannot be read, all three strategies have been
  converted and \<^verbatim>\<open>float16\<close> and \<^verbatim>\<open>int8\<close> evaluate without an error on their own, but
  the pipeline fails with the error of \<^verbatim>\<open>dynamic\<close>: no strategy is reported and no
  report is written.
\<close>

theorem evaluation_failure_aborts_siblings:
  "quantize_all_methods unreadable_dynamic_env ''models/quantized''
     (calibration_slice short_corpus) = Inr example_models \<and>
   evaluate_quantized_models unreadable_dynamic_env (drop 1 example_models)
     example_texts example_labels = Inr (drop 1 example_results) \<and>
   quantize_model unreadable_dynamic_env short_corpus example_texts example_labels 20 =
     Inl OSError"
proof -
  have texts: "take 100 example_texts = example_texts" "take 100 example_labels = example_labels"
    by (simp_all add: example_texts_def example_labels_def)
  have trained: "model_trained unreadable_dynamic_env"
    by (simp add: unreadable_dynamic_env_def example_env_def)
  have "quantize_model unreadable_dynamic_env short_corpus example_texts example_labels 20 =
          Inl OSError"
    by (rule quantize_model_evaluation_failure [OF trained unreadable_dynamic_conversions])
       (simp only: texts unreadable_dynamic_evaluation)
  then show ?thesis
    using unreadable_dynamic_conversions [of "calibration_slice short_corpus"]
      unreadable_dynamic_siblings
    by simp
qed

text \<open>
  \<^bold>\<open>Claim C7, amended.\<close> A conversion failure of one strategy is caught locally and
  never aborts the sibling strategies or the run. Once the output directory exists,
  \<^verbatim>\<open>quantize_all_methods\<close> returns exactly the strategies whose conversion succeeded,
  each with its own model, in the order \<^verbatim>\<open>dynamic\<close>, \<^verbatim>\<open>float16\<close>, \<^verbatim>\<open>int8\<close>; a failed
  strategy is simply absent. When at least one strategy has been converted,
  \<^verbatim>\<open>quantize_model\<close> returns, with exactly the converted strategies in its results, in
  the report's \<^verbatim>\<open>quantization_methods_tested\<close> and in its \<^verbatim>\<open>detailed_results\<close>, and
  with one of them selected, provided that the evaluation of the converted strategies
  returns, the report file can be written and the plot can be drawn. A benchmarking or
  evaluation failure is not caught: when the benchmark or the accuracy evaluation of one
  converted strategy fails, \<^verbatim>\<open>quantize_model\<close> fails.
\<close>

theorem conversion_failures_are_isolated:
  "(mkdir env output_dir = None \<longrightarrow>
      quantize_all_methods env output_dir calibration_texts =
        Inr ((case quantize_dynamic env
                    (join_path env output_dir ''mobile_classifier_dynamic.tflite'') of
                Inl e \<Rightarrow> [] | Inr info \<Rightarrow> [(''dynamic'', info)]) @
             (case quantize_float16 env
                    (join_path env output_dir ''mobile_classifier_float16.tflite'') of
                Inl e \<Rightarrow> [] | Inr info \<Rightarrow> [(''float16'', info)]) @
             (case fst (quantize_int8 env
                          (join_path env output_dir ''mobile_classifier_int8.tflite'')
                          calibration_texts True) of
                Inl e \<Rightarrow> [] | Inr info \<Rightarrow> [(''int8'', info)]))) \<and>
   (model_trained env \<and>
    quantize_all_methods env ''models/quantized'' (calibration_slice train_texts) =
      Inr quantized_models \<and>
    quantized_models \<noteq> [] \<and>
    evaluate_quantized_models env quantized_models (take 100 test_texts) (take 100 test_labels)
      = Inr evaluation_results \<and>
    (\<forall>report. build_report evaluation_results = Inr report \<longrightarrow>
       write_report env report_path report = None) \<and>
    plot_figure env evaluation_results plot_path = None \<longrightarrow>
      map fst evaluation_results = map fst quantized_models \<and>
      (\<exists>best report.
         quantize_model env train_texts test_texts test_labels target_size_mb =
           Inr \<lparr>res_quantized_models = quantized_models,
                res_evaluation_results = evaluation_results,
                res_best_method = best, res_report = report\<rparr> \<and>
         best \<in> set (map fst quantized_models) \<and>
         quantization_methods_tested (summary report) = map fst quantized_models \<and>
         map fst (detailed_results report) = map fst quantized_models)) \<and>
   (model_trained env \<and>
    quantize_all_methods env ''models/quantized'' (calibration_slice train_texts) =
      Inr quantized_models \<and>
    (m, info) \<in> set quantized_models \<and>
    (benchmark_tflite_model env (model_path info) (take 10 (take 100 test_texts))
       default_num_runs = Inl e \<or>
     evaluate_tflite_accuracy env (model_path info) (take 100 test_texts)
       (take 100 test_labels) = Inl e) \<longrightarrow>
      (\<exists>e'. quantize_model env train_texts test_texts test_labels target_size_mb = Inl e'))"
proof (intro conjI impI)
  assume "mkdir env output_dir = None"
  then show "quantize_all_methods env output_dir calibration_texts =
        Inr ((case quantize_dynamic env
                    (join_path env output_dir ''mobile_classifier_dynamic.tflite'') of
                Inl e \<Rightarrow> [] | Inr info \<Rightarrow> [(''dynamic'', info)]) @
             (case quantize_float16 env
                    (join_path env output_dir ''mobile_classifier_float16.tflite'') of
                Inl e \<Rightarrow> [] | Inr info \<Rightarrow> [(''float16'', info)]) @
             (case fst (quantize_int8 env
                          (join_path env output_dir ''mobile_classifier_int8.tflite'')
                          calibration_texts True) of
                Inl e \<Rightarrow> [] | Inr info \<Rightarrow> [(''int8'', info)]))"
    by (rule quantize_all_methods_results)
next
  assume h: "model_trained env \<and>
    quantize_all_methods env ''models/quantized'' (calibration_slice train_texts) =
      Inr quantized_models \<and>
    quantized_models \<noteq> [] \<and>
    evaluate_quantized_models env quantized_models (take 100 test_texts) (take 100 test_labels)
      = Inr evaluation_results \<and>
    (\<forall>report. build_report evaluation_results = Inr report \<longrightarrow>
       write_report env report_path report = None) \<and>
    plot_figure env evaluation_results plot_path = None"
  then have trained: "model_trained env"
    and conv: "quantize_all_methods env ''models/quantized'' (calibration_slice train_texts) =
                 Inr quantized_models"
    and ne: "quantized_models \<noteq> []"
    and ev: "evaluate_quantized_models env quantized_models
               (take 100 test_texts) (take 100 test_labels) = Inr evaluation_results"
    and wr: "\<forall>report. build_report evaluation_results = Inr report \<longrightarrow>
               write_report env report_path report = None"
    and plot: "plot_figure env evaluation_results plot_path = None"
    by simp_all
  note run = quantize_model_returns [OF trained conv ne ev wr plot, of target_size_mb]
  from run show "map fst evaluation_results = map fst quantized_models" by (rule conjunct1)
  from run show "\<exists>best report.
         quantize_model env train_texts test_texts test_labels target_size_mb =
           Inr \<lparr>res_quantized_models = quantized_models,
                res_evaluation_results = evaluation_results,
                res_best_method = best, res_report = report\<rparr> \<and>
         best \<in> set (map fst quantized_models) \<and>
         quantization_methods_tested (summary report) = map fst quantized_models \<and>
         map fst (detailed_results report) = map fst quantized_models"
    by (rule conjunct2)
next
  assume h: "model_trained env \<and>
    quantize_all_methods env ''models/quantized'' (calibration_slice train_texts) =
      Inr quantized_models \<and>
    (m, info) \<in> set quantized_models \<and>
    (benchmark_tflite_model env (model_path info) (take 10 (take 100 test_texts))
       default_num_runs = Inl e \<or>
     evaluate_tflite_accuracy env (model_path info) (take 100 test_texts)
       (take 100 test_labels) = Inl e)"
  then have trained: "model_trained env"
    and conv: "quantize_all_methods env ''models/quantized'' (calibration_slice train_texts) =
                 Inr quantized_models"
    and mem: "(m, info) \<in> set quantized_models"
    and fails: "benchmark_tflite_model env (model_path info) (take 10 (take 100 test_texts))
                  default_num_runs = Inl e \<or>
                evaluate_tflite_accuracy env (model_path info) (take 100 test_texts)
                  (take 100 test_labels) = Inl e"
    by simp_all
  show "\<exists>e'. quantize_model env train_texts test_texts test_labels target_size_mb = Inl e'"
  proof (cases "evaluate_quantized_models env quantized_models
                  (take 100 test_texts) (take 100 test_labels)")
    case (Inl e')
    from quantize_model_evaluation_failure [OF trained conv Inl] show ?thesis by blast
  next
    case (Inr out)
    from evaluate_quantized_models_needs_all [OF Inr] mem
    have "(\<exists>b. benchmark_tflite_model env (model_path info) (take 10 (take 100 test_texts))
                 default_num_runs = Inr b) \<and>
          (\<exists>q. evaluate_tflite_accuracy env (model_path info) (take 100 test_texts)
                 (take 100 test_labels) = Inr q)"
      by auto
    with fails show ?thesis by auto
  qed
qed

theorem conversion_failures_are_isolated_witness:
  "mkdir no_float16_env ''models/quantized'' = None \<and>
   quantize_float16 no_float16_env
     (join_path no_float16_env ''models/quantized'' ''mobile_classifier_float16.tflite'') =
     Inl ConverterError \<and>
   model_trained no_float16_env \<and>
   quantize_all_methods no_float16_env ''models/quantized'' (calibration_slice [''aa'']) =
     Inr converted_without_float16 \<and>
   converted_without_float16 \<noteq> [] \<and>
   map fst converted_without_float16 = [''dynamic'', ''int8''] \<and>
   evaluate_quantized_models no_float16_env converted_without_float16
     (take 100 example_texts) (take 100 example_labels) = Inr results_without_float16 \<and>
   write_report no_float16_env report_path = (\<lambda>report. None) \<and>
   plot_figure no_float16_env results_without_float16 plot_path = None \<and>
   map fst results_without_float16 = map fst converted_without_float16 \<and>
   (\<exists>best report.
      quantize_model no_float16_env [''aa''] example_texts example_labels 20 =
        Inr \<lparr>res_quantized_models = converted_without_float16,
             res_evaluation_results = results_without_float16,
             res_best_method = best, res_report = report\<rparr> \<and>
      best \<in> set (map fst converted_without_float16) \<and>
      quantization_methods_tested (summary report) = map fst converted_without_float16 \<and>
      map fst (detailed_results report) = map fst converted_without_float16) \<and>
   model_trained broken_interpreter_env \<and>
   quantize_all_methods broken_interpreter_env ''models/quantized''
     (calibration_slice [''aa'']) = Inr example_models \<and>
   (''float16'', example_info ''models/quantized/mobile_classifier_float16.tflite''
                   ''float16'' 6 (1 / 4)) \<in> set example_models \<and>
   benchmark_tflite_model broken_interpreter_env
     ''models/quantized/mobile_classifier_float16.tflite''
     (take 10 (take 100 example_texts)) default_num_runs = Inl InterpreterError \<and>
   (\<exists>e'. quantize_model broken_interpreter_env [''aa''] example_texts example_labels 20
           = Inl e')"
proof -
  have texts: "take 100 example_texts = example_texts" "take 100 example_labels = example_labels"
    by (simp_all add: example_texts_def example_labels_def)
  have mk: "mkdir no_float16_env ''models/quantized'' = None"
    by (simp add: no_float16_env_def example_env_def)
  have f16: "quantize_float16 no_float16_env
               (join_path no_float16_env ''models/quantized''
                  ''mobile_classifier_float16.tflite'') = Inl ConverterError"
    by (simp add: quantize_float16_def no_float16_env_def example_env_def float16_config_def)
  have trained: "model_trained no_float16_env"
    by (simp add: no_float16_env_def example_env_def)
  have conv: "quantize_all_methods no_float16_env ''models/quantized''
                (calibration_slice [''aa'']) = Inr converted_without_float16"
    using no_float16_conversions by (simp add: calibration_slice_def)
  have ne: "converted_without_float16 \<noteq> []" by (simp add: converted_without_float16_def)
  have names: "map fst converted_without_float16 = [''dynamic'', ''int8'']"
    by (simp add: converted_without_float16_def)
  have ev: "evaluate_quantized_models no_float16_env converted_without_float16
              (take 100 example_texts) (take 100 example_labels) = Inr results_without_float16"
    by (simp only: texts no_float16_evaluation)
  have wr: "write_report no_float16_env report_path = (\<lambda>report. None)"
    by (simp add: no_float16_env_def example_env_def)
  have wr': "\<forall>report. build_report results_without_float16 = Inr report \<longrightarrow>
               write_report no_float16_env report_path report = None"
    by (simp add: wr)
  have plot: "plot_figure no_float16_env results_without_float16 plot_path = None"
    by (simp add: no_float16_env_def example_env_def)
  have good: "map fst results_without_float16 = map fst converted_without_float16 \<and>
     (\<exists>best report.
        quantize_model no_float16_env [''aa''] example_texts example_labels 20 =
          Inr \<lparr>res_quantized_models = converted_without_float16,
               res_evaluation_results = results_without_float16,
               res_best_method = best, res_report = report\<rparr> \<and>
        best \<in> set (map fst converted_without_float16) \<and>
        quantization_methods_tested (summary report) = map fst converted_without_float16 \<and>
        map fst (detailed_results report) = map fst converted_without_float16)"
    using conversion_failures_are_isolated
      [where env = no_float16_env and train_texts = "[''aa'']" and
         quantized_models = converted_without_float16 and
         test_texts = example_texts and test_labels = example_labels and
         evaluation_results = results_without_float16 and target_size_mb = 20]
      trained conv ne ev wr' plot
    by blast
  have trained2: "model_trained broken_interpreter_env"
    by (simp add: broken_interpreter_env_def example_env_def)
  have conv2: "quantize_all_methods broken_interpreter_env ''models/quantized''
                 (calibration_slice [''aa'']) = Inr example_models"
    by (rule broken_interpreter_conversions)
  have mem: "(''float16'', example_info ''models/quantized/mobile_classifier_float16.tflite''
                             ''float16'' 6 (1 / 4)) \<in> set example_models"
    by (simp add: example_models_def)
  have path: "model_path (example_info ''models/quantized/mobile_classifier_float16.tflite''
                            ''float16'' 6 (1 / 4)) =
              ''models/quantized/mobile_classifier_float16.tflite''"
    by (simp add: example_info_def)
  have bench: "benchmark_tflite_model broken_interpreter_env
                 ''models/quantized/mobile_classifier_float16.tflite''
                 (take 10 (take 100 example_texts)) default_num_runs = Inl InterpreterError"
    by (simp only: texts broken_interpreter_benchmark)
  have bad: "\<exists>e'. quantize_model broken_interpreter_env [''aa''] example_texts example_labels 20
                    = Inl e'"
    using conversion_failures_are_isolated
      [where env = broken_interpreter_env and train_texts = "[''aa'']" and
         quantized_models = example_models and
         test_texts = example_texts and test_labels = example_labels and
         m = "''float16''" and
         info = "example_info ''models/quantized/mobile_classifier_float16.tflite''
                   ''float16'' 6 (1 / 4)" and
         e = InterpreterError and target_size_mb = 20]
      trained2 conv2 mem bench
    by (simp only: path) blast
  show ?thesis
    using mk f16 trained conv ne names ev wr plot good trained2 conv2 mem bench bad by blast
qed

end
